theory Spec2Isabelle
  imports Main "HOL-Library.Sublist"
begin

text \<open>
  A model of \<open>printBindings\<close> and its helpers \<open>truncate\<close>, \<open>normalizeValue\<close> and
  \<open>createAddSuffix\<close>: the inventory of the bindings of a Worker, in groups, with the
  connection status of the bindings that refer to another Worker running locally.
  The definitions follow the source statement by statement; the properties come after
  them.
\<close>

section \<open>Values of the host language\<close>

text \<open>
  Strings are lists of code units; \<open>length\<close> is the \<open>.length\<close> of the source and
  \<open>take n\<close> is \<open>substring(0, n)\<close>.

  A value handed to \<open>addSuffix\<close> has the type \<open>string | symbol | undefined\<close>.
\<close>

datatype js_value = JsString string | JsSymbol | JsUndefined

text \<open>Truthiness of an optional boolean and of an optional string (\<open>if (x)\<close>).\<close>

definition truthy :: "bool option \<Rightarrow> bool" where
  "truthy b = (case b of None \<Rightarrow> False | Some v \<Rightarrow> v)"

definition truthy_str :: "string option \<Rightarrow> bool" where
  "truthy_str s = (case s of None \<Rightarrow> False | Some t \<Rightarrow> t \<noteq> [])"

text \<open>
  What the function takes from outside the file: the two colour functions of the
  terminal library, the experimental flag \<open>MIXED_MODE\<close>, and the three conversions of
  a structured value \<open>'j\<close> to text: \<open>JSON.stringify(v)\<close>, \<open>JSON.stringify(v, null, 1)\<close>
  and the template literal.
\<close>

record 'j env =
  green :: "string \<Rightarrow> string"
  red :: "string \<Rightarrow> string"
  MIXED_MODE :: bool
  stringify :: "'j \<Rightarrow> string"
  stringify_indent :: "'j \<Rightarrow> string"
  template :: "'j \<Rightarrow> string"

section \<open>The suffix helper\<close>

definition normalizeValue :: "js_value \<Rightarrow> string" where
  "normalizeValue v = (case v of JsString s \<Rightarrow> s | JsSymbol \<Rightarrow> [] | JsUndefined \<Rightarrow> [])"

text \<open>
  \<open>createAddSuffix({isProvisioning = false, isLocalDev = false})\<close> returns
  \<open>addSuffix(value, {isSimulatedLocally = false} = {})\<close>; an absent argument is \<open>None\<close>
  and takes the default.
\<close>

definition createAddSuffix ::
  "bool option \<Rightarrow> bool option \<Rightarrow> js_value \<Rightarrow> bool option \<Rightarrow> string" where
  "createAddSuffix isProvisioning isLocalDev v isSimulatedLocally =
     (let normalizedValue = normalizeValue v in
      if truthy isProvisioning \<or> \<not> truthy isLocalDev then normalizedValue
      else if truthy isSimulatedLocally then normalizedValue @ '' [simulated locally]''
      else normalizedValue @ '' [connected to remote resource]'')"

section \<open>Truncation\<close>

datatype 'j item = ItemString string | ItemRecord 'j

definition truncate_item :: "'j env \<Rightarrow> 'j item \<Rightarrow> string" where
  "truncate_item e it =
     (let s = (case it of ItemString t \<Rightarrow> t | ItemRecord r \<Rightarrow> stringify e r);
          maxLength = (40::nat) in
      if length s < maxLength then s else take (maxLength - 3) s @ ''...'')"

section \<open>The binding configuration\<close>

text \<open>
  The type \<open>CfWorkerInit["bindings"]\<close> is declared outside this file; each record below
  has the fields that \<open>printBindings\<close> destructures, an optional field being an
  \<open>option\<close>. A field that the function tests with \<open>typeof\<close> or hands to \<open>addSuffix\<close>
  as a possibly symbolic value is a \<open>js_value\<close>. An object used as a map
  (\<open>Record<string, _>\<close>) is the list of its \<open>Object.entries\<close>.
\<close>

datatype module_value = ModuleString string | ModuleBinary

datatype 'j var_value = VarString string | VarObject 'j | VarOther 'j

record durable_object =
  do_name :: string
  do_class_name :: string
  do_script_name :: "string option"

record workflow =
  wf_class_name :: string
  wf_script_name :: "string option"
  wf_binding :: string
  wf_remote :: "bool option"

record kv_namespace =
  kv_binding :: string
  kv_id :: js_value
  kv_remote :: "bool option"

record send_email_binding =
  se_name :: string
  se_destination_address :: "string option"
  se_allowed_destination_addresses :: "string list option"

record queue =
  q_binding :: string
  q_queue_name :: string
  q_remote :: "bool option"

record d1_database =
  d1_binding :: string
  d1_database_name :: "string option"
  d1_database_id :: js_value
  d1_preview_database_id :: "string option"
  d1_remote :: "bool option"

record vectorize_index =
  vec_binding :: string
  vec_index_name :: string

record hyperdrive_config =
  hd_binding :: string
  hd_id :: string

record r2_bucket =
  r2_binding :: string
  r2_bucket_name :: js_value
  r2_jurisdiction :: "string option"
  r2_remote :: "bool option"

record logfwdr_binding =
  lf_name :: string
  lf_destination :: string

record secrets_store_secret =
  ss_binding :: string
  ss_store_id :: string
  ss_secret_name :: string

record service_binding =
  svc_binding :: string
  svc_service :: string
  svc_entrypoint :: "string option"
  svc_remote :: "bool option"

record analytics_engine_dataset =
  ae_binding :: string
  ae_dataset :: "string option"

text \<open>Browser, Images, Assets and version metadata: only \<open>binding\<close> is read.\<close>

record single_binding =
  sb_binding :: string

record ai_binding =
  ai_name :: string
  ai_staging :: "bool option"

record pipeline =
  pl_binding :: string
  pl_pipeline :: string

record unsafe_binding =
  ub_name :: string
  ub_type :: string

record 'j unsafe_config =
  unsafe_bindings :: "unsafe_binding list option"
  unsafe_metadata :: "(string \<times> 'j) list option"

text \<open>\<open>dn_outbound\<close> is \<open>outbound.service\<close> when \<open>outbound\<close> is present.\<close>

record dispatch_namespace =
  dn_binding :: string
  dn_namespace :: string
  dn_outbound :: "string option"

record mtls_certificate =
  mtls_binding :: string
  mtls_certificate_id :: string

text \<open>
  \<open>durable_objects\<close> and \<open>logfwdr\<close> hold the \<open>bindings\<close> array of their payload.
\<close>

record 'j bindings =
  data_blobs :: "(string \<times> module_value) list option"
  durable_objects :: "durable_object list option"
  workflows :: "workflow list option"
  kv_namespaces :: "kv_namespace list option"
  send_email :: "send_email_binding list option"
  queues :: "queue list option"
  d1_databases :: "d1_database list option"
  vectorize :: "vectorize_index list option"
  hyperdrive :: "hyperdrive_config list option"
  r2_buckets :: "r2_bucket list option"
  logfwdr :: "logfwdr_binding list option"
  secrets_store_secrets :: "secrets_store_secret list option"
  services :: "service_binding list option"
  analytics_engine_datasets :: "analytics_engine_dataset list option"
  text_blobs :: "(string \<times> string) list option"
  browser :: "single_binding option"
  images :: "single_binding option"
  ai :: "ai_binding option"
  version_metadata :: "single_binding option"
  unsafe :: "'j unsafe_config option"
  vars :: "(string \<times> 'j var_value) list option"
  wasm_modules :: "(string \<times> module_value) list option"
  dispatch_namespaces :: "dispatch_namespace list option"
  mtls_certificates :: "mtls_certificate list option"
  pipelines :: "pipeline list option"
  assets :: "single_binding option"

record tail_consumer =
  tc_service :: string

section \<open>The registry and the context\<close>

text \<open>
  Reading a property \<open>obj[n]\<close> of a plain object gives the value of its own property
  \<open>n\<close>; without one, it gives the member of that name of \<open>Object.prototype\<close>, if there
  is one, and \<open>undefined\<close> otherwise. An object used as a map is the map of its own
  properties. Each inherited member is a function or an object: it is truthy, and it has
  neither \<open>durableObjects\<close> nor \<open>entrypointAddresses\<close>.
\<close>

definition object_prototype_names :: "string list" where
  "object_prototype_names =
     [''constructor'', ''__defineGetter__'', ''__defineSetter__'', ''hasOwnProperty'',
      ''__lookupGetter__'', ''__lookupSetter__'', ''isPrototypeOf'', ''propertyIsEnumerable'',
      ''toString'', ''valueOf'', ''__proto__'', ''toLocaleString'']"

datatype 'a property = Own 'a | Inherited | NoProperty

definition get_property :: "(string \<rightharpoonup> 'a) \<Rightarrow> string \<Rightarrow> 'a property" where
  "get_property obj n =
     (case obj n of
        Some v \<Rightarrow> Own v
      | None \<Rightarrow> if n \<in> set object_prototype_names then Inherited else NoProperty)"

text \<open>
  Modelled from the spec: the type \<open>WorkerRegistry\<close> of the development registry is
  declared outside this file. A registry maps a service name to a definition with a
  \<open>durableObjects\<close> sequence of \<open>{ className }\<close> and an optional \<open>entrypointAddresses\<close>
  mapping from entrypoint name to address. The spec says no more of an address; the
  function tests it for truthiness only, so an address is an object \<open>{ host, port }\<close>,
  which is truthy, a string, which is truthy unless empty, or \<open>undefined\<close>.
\<close>

datatype address = AddressObject string nat | AddressString string | AddressUndefined

definition truthy_address :: "address \<Rightarrow> bool" where
  "truthy_address a =
     (case a of AddressObject h p \<Rightarrow> True | AddressString t \<Rightarrow> t \<noteq> []
              | AddressUndefined \<Rightarrow> False)"

record durable_object_def =
  className :: string

record worker_definition =
  durableObjects :: "durable_object_def list"
  entrypointAddresses :: "(string \<rightharpoonup> address) option"

text \<open>\<open>context.registry\<close> has the type \<open>WorkerRegistry | null\<close> and may be absent.\<close>

datatype registry_value =
  RegistryUndefined | RegistryNull | Registry "string \<rightharpoonup> worker_definition"

record ctx =
  registry :: registry_value
  local :: "bool option"
  imagesLocalMode :: "bool option"
  ctx_name :: "string option"
  provisioning :: "bool option"

text \<open>\<open>context.registry === null\<close>\<close>

definition is_null :: "registry_value \<Rightarrow> bool" where
  "is_null r = (case r of RegistryNull \<Rightarrow> True | RegistryUndefined \<Rightarrow> False | Registry m \<Rightarrow> False)"

text \<open>\<open>context.registry?.[n]\<close>: the read is skipped when the registry is absent.\<close>

definition registry_get :: "registry_value \<Rightarrow> string \<Rightarrow> worker_definition property" where
  "registry_get r n =
     (case r of Registry m \<Rightarrow> get_property m n | RegistryNull \<Rightarrow> NoProperty
              | RegistryUndefined \<Rightarrow> NoProperty)"

section \<open>Output and mutable state\<close>

text \<open>
  An element of \<open>output\<close> is \<open>{ name, entries }\<close> and an entry is \<open>{ key, value }\<close>;
  the fields are \<open>group_name\<close>, \<open>entries\<close>, \<open>key\<close> and \<open>val\<close> here. Every value that the
  function builds is a string.
\<close>

record entry =
  key :: string
  val :: string

record display_group =
  group_name :: string
  entries :: "entry list"

text \<open>
  The one variable that the callbacks assign is \<open>hasConnectionStatus\<close>. \<open>resolved\<close>
  records, in order, the names looked up in the registry (each evaluation of
  \<open>context.registry?.[n]\<close>); the source keeps no such log.
\<close>

record pstate =
  hasConnectionStatus :: bool
  resolved :: "string list"

text \<open>\<open>xs.map(f)\<close> for a callback that assigns to the state.\<close>

fun map_st :: "('a \<Rightarrow> 's \<Rightarrow> 'b \<times> 's) \<Rightarrow> 'a list \<Rightarrow> 's \<Rightarrow> 'b list \<times> 's" where
  "map_st f [] st = ([], st)"
| "map_st f (x # xs) st =
     (case f x st of (y, st1) \<Rightarrow> (case map_st f xs st1 of (ys, st2) \<Rightarrow> (y # ys, st2)))"

text \<open>
  The only statement of the function that can throw is the call
  \<open>registryDefinition.durableObjects.some(...)\<close>, when \<open>registryDefinition\<close> is a member
  inherited from \<open>Object.prototype\<close>: its \<open>durableObjects\<close> is \<open>undefined\<close>.
\<close>

datatype error = TypeError

text \<open>\<open>xs.map(f)\<close> for a callback that assigns to the state and may throw.\<close>

fun map_st_err ::
  "('a \<Rightarrow> 's \<Rightarrow> error + 'b \<times> 's) \<Rightarrow> 'a list \<Rightarrow> 's \<Rightarrow> error + 'b list \<times> 's" where
  "map_st_err f [] st = Inr ([], st)"
| "map_st_err f (x # xs) st =
     (case f x st of
        Inl err \<Rightarrow> Inl err
      | Inr (y, st1) \<Rightarrow>
          (case map_st_err f xs st1 of
             Inl err \<Rightarrow> Inl err
           | Inr (ys, st2) \<Rightarrow> Inr (y # ys, st2)))"

datatype binding_kind =
  Data_blobs | Durable_objects | Kv_namespaces | Send_email | Queues | D1_databases
  | Vectorize | Hyperdrive | R2_buckets | Logfwdr | Services | Analytics_engine_datasets
  | Text_blobs | Browser | Ai | Images | Version_metadata | Unsafe | Vars | Wasm_modules
  | Dispatch_namespaces | Mtls_certificates | Workflows | Pipelines | Secrets_store_secrets
  | Assets

fun friendlyBindingNames :: "binding_kind \<Rightarrow> string" where
  "friendlyBindingNames Data_blobs = ''Data Blobs''"
| "friendlyBindingNames Durable_objects = ''Durable Objects''"
| "friendlyBindingNames Kv_namespaces = ''KV Namespaces''"
| "friendlyBindingNames Send_email = ''Send Email''"
| "friendlyBindingNames Queues = ''Queues''"
| "friendlyBindingNames D1_databases = ''D1 Databases''"
| "friendlyBindingNames Vectorize = ''Vectorize Indexes''"
| "friendlyBindingNames Hyperdrive = ''Hyperdrive Configs''"
| "friendlyBindingNames R2_buckets = ''R2 Buckets''"
| "friendlyBindingNames Logfwdr = ''logfwdr''"
| "friendlyBindingNames Services = ''Services''"
| "friendlyBindingNames Analytics_engine_datasets = ''Analytics Engine Datasets''"
| "friendlyBindingNames Text_blobs = ''Text Blobs''"
| "friendlyBindingNames Browser = ''Browser''"
| "friendlyBindingNames Ai = ''AI''"
| "friendlyBindingNames Images = ''Images''"
| "friendlyBindingNames Version_metadata = ''Worker Version Metadata''"
| "friendlyBindingNames Unsafe = ''Unsafe Metadata''"
| "friendlyBindingNames Vars = ''Vars''"
| "friendlyBindingNames Wasm_modules = ''Wasm Modules''"
| "friendlyBindingNames Dispatch_namespaces = ''Dispatch Namespaces''"
| "friendlyBindingNames Mtls_certificates = ''mTLS Certificates''"
| "friendlyBindingNames Workflows = ''Workflows''"
| "friendlyBindingNames Pipelines = ''Pipelines''"
| "friendlyBindingNames Secrets_store_secrets = ''Secrets Store Secrets''"
| "friendlyBindingNames Assets = ''Assets''"

section \<open>Entries of the kinds that refer to another Worker\<close>

definition durable_object_entry ::
  "'j env \<Rightarrow> ctx \<Rightarrow> durable_object \<Rightarrow> pstate \<Rightarrow> error + entry \<times> pstate" where
  "durable_object_entry e c b st =
     (case do_script_name b of
        None \<Rightarrow> Inr (\<lparr>key = do_name b, val = do_class_name b\<rparr>, st)
      | Some script_name \<Rightarrow>
          if script_name = [] then Inr (\<lparr>key = do_name b, val = do_class_name b\<rparr>, st)
          else if truthy (local c) \<and> \<not> is_null (registry c) then
            (let registryDefinition = registry_get (registry c) script_name;
                 st1 = st\<lparr>hasConnectionStatus := True, resolved := resolved st @ [script_name]\<rparr>;
                 connected = \<lparr>key = do_name b,
                       val = do_class_name b @ '' (defined in '' @ script_name @ '' ''
                             @ green e ''[connected]'' @ '')''\<rparr>;
                 not_connected = \<lparr>key = do_name b,
                       val = do_class_name b @ '' (defined in '' @ script_name @ '' ''
                             @ red e ''[not connected]'' @ '')''\<rparr>
             in case registryDefinition of
                  NoProperty \<Rightarrow> Inr (not_connected, st1)
                | Own d \<Rightarrow>
                    if list_ex (\<lambda>x. className x = do_class_name b) (durableObjects d)
                    then Inr (connected, st1) else Inr (not_connected, st1)
                | Inherited \<Rightarrow> Inl TypeError)
          else Inr (\<lparr>key = do_name b,
                     val = do_class_name b @ '' (defined in '' @ script_name @ '')''\<rparr>, st))"

text \<open>The value before any suffix: \<open>service\<close>, then \<open>#entrypoint\<close> if there is one.\<close>

definition service_value :: "service_binding \<Rightarrow> string" where
  "service_value b =
     (case svc_entrypoint b of
        None \<Rightarrow> svc_service b
      | Some entrypoint \<Rightarrow>
          if entrypoint = [] then svc_service b else svc_service b @ ''#'' @ entrypoint)"

text \<open>
  \<open>registryDefinition && (!entrypoint || registryDefinition.entrypointAddresses?.[entrypoint])\<close>
\<close>

definition service_connected :: "worker_definition property \<Rightarrow> string option \<Rightarrow> bool" where
  "service_connected registryDefinition entrypoint =
     (case registryDefinition of
        NoProperty \<Rightarrow> False
      | Inherited \<Rightarrow> \<not> truthy_str entrypoint
      | Own d \<Rightarrow>
          \<not> truthy_str entrypoint \<or>
          (case entrypoint of
             None \<Rightarrow> False
           | Some ep \<Rightarrow>
               (case entrypointAddresses d of
                  None \<Rightarrow> False
                | Some m \<Rightarrow>
                    (case get_property m ep of
                       Own a \<Rightarrow> truthy_address a
                     | Inherited \<Rightarrow> True
                     | NoProperty \<Rightarrow> False))))"

definition service_entry ::
  "'j env \<Rightarrow> ctx \<Rightarrow> service_binding \<Rightarrow> pstate \<Rightarrow> entry \<times> pstate" where
  "service_entry e c b st =
     (let v = service_value b in
      if truthy (svc_remote b) then
        (\<lparr>key = svc_binding b,
          val = createAddSuffix (provisioning c) (local c) (JsString v) (Some False)\<rparr>, st)
      else if truthy (local c) \<and> \<not> is_null (registry c) then
        (let registryDefinition = registry_get (registry c) (svc_service b);
             st1 = st\<lparr>hasConnectionStatus := True, resolved := resolved st @ [svc_service b]\<rparr>
         in if service_connected registryDefinition (svc_entrypoint b) then
              (if MIXED_MODE e
               then (\<lparr>key = svc_binding b,
                      val = v @ '' '' @ green e ''[connected to local resource]''\<rparr>, st1)
               else (\<lparr>key = svc_binding b, val = v @ '' '' @ green e ''[connected]''\<rparr>, st1))
            else (\<lparr>key = svc_binding b, val = v @ '' '' @ red e ''[not connected]''\<rparr>, st1))
      else (\<lparr>key = svc_binding b, val = v\<rparr>, st))"

definition tail_consumer_line ::
  "'j env \<Rightarrow> ctx \<Rightarrow> tail_consumer \<Rightarrow> pstate \<Rightarrow> string \<times> pstate" where
  "tail_consumer_line e c t st =
     (if truthy (local c) \<and> \<not> is_null (registry c) then
        (let registryDefinition = registry_get (registry c) (tc_service t);
             st1 = st\<lparr>hasConnectionStatus := True, resolved := resolved st @ [tc_service t]\<rparr>
         in if (case registryDefinition of NoProperty \<Rightarrow> False | Own d \<Rightarrow> True
                                           | Inherited \<Rightarrow> True)
            then (''- '' @ tc_service t @ '' '' @ green e ''[connected]'', st1)
            else (''- '' @ tc_service t @ '' '' @ red e ''[not connected]'', st1))
      else (''- '' @ tc_service t, st))"

section \<open>Entries of the other kinds\<close>

text \<open>Below, \<open>addSuffix\<close> is the function made by \<open>createAddSuffix\<close> for the context.\<close>

definition data_blob_entry :: "'j env \<Rightarrow> string \<times> module_value \<Rightarrow> entry" where
  "data_blob_entry e kv =
     \<lparr>key = fst kv,
      val = (case snd kv of ModuleString s \<Rightarrow> truncate_item e (ItemString s)
                          | ModuleBinary \<Rightarrow> ''<Buffer>'')\<rparr>"

definition workflow_entry :: "(js_value \<Rightarrow> bool option \<Rightarrow> string) \<Rightarrow> workflow \<Rightarrow> entry" where
  "workflow_entry addSuffix w =
     (case wf_script_name w of
        None \<Rightarrow>
          \<lparr>key = wf_binding w,
           val = addSuffix (JsString (wf_class_name w)) (Some (\<not> truthy (wf_remote w)))\<rparr>
      | Some script_name \<Rightarrow>
          if script_name = [] then
            \<lparr>key = wf_binding w,
             val = addSuffix (JsString (wf_class_name w)) (Some (\<not> truthy (wf_remote w)))\<rparr>
          else \<lparr>key = wf_binding w,
                 val = wf_class_name w @ '' (defined in '' @ script_name @ '')''\<rparr>)"

definition kv_namespace_entry ::
  "(js_value \<Rightarrow> bool option \<Rightarrow> string) \<Rightarrow> kv_namespace \<Rightarrow> entry" where
  "kv_namespace_entry addSuffix k =
     \<lparr>key = kv_binding k, val = addSuffix (kv_id k) (Some (\<not> truthy (kv_remote k)))\<rparr>"

text \<open>\<open>xs.join(", ")\<close>\<close>

fun join_comma :: "string list \<Rightarrow> string" where
  "join_comma [] = []"
| "join_comma [x] = x"
| "join_comma (x # y # ys) = x @ '', '' @ join_comma (y # ys)"

definition send_email_entry ::
  "(js_value \<Rightarrow> bool option \<Rightarrow> string) \<Rightarrow> send_email_binding \<Rightarrow> entry" where
  "send_email_entry addSuffix m =
     (let joined = (case se_allowed_destination_addresses m of
                      None \<Rightarrow> None | Some xs \<Rightarrow> Some (join_comma xs));
          shown = (if truthy_str (se_destination_address m)
                   then (case se_destination_address m of Some d \<Rightarrow> d | None \<Rightarrow> [])
                   else if truthy_str joined
                   then (case joined of Some j \<Rightarrow> j | None \<Rightarrow> [])
                   else ''unrestricted'')
      in \<lparr>key = se_name m, val = addSuffix (JsString shown) (Some True)\<rparr>)"

definition queue_entry :: "(js_value \<Rightarrow> bool option \<Rightarrow> string) \<Rightarrow> queue \<Rightarrow> entry" where
  "queue_entry addSuffix q =
     \<lparr>key = q_binding q,
      val = addSuffix (JsString (q_queue_name q)) (Some (\<not> truthy (q_remote q)))\<rparr>"

text \<open>
  \<open>databaseValue\<close> is a string, \<open>null\<close> or \<open>undefined\<close>; the last two are \<open>None\<close>, and
  both are falsy for \<open>addSuffix\<close>.
\<close>

definition d1_database_value :: "d1_database \<Rightarrow> string option" where
  "d1_database_value d =
     (let remoteDatabaseId = (case d1_database_id d of JsString s \<Rightarrow> Some s
                                | JsSymbol \<Rightarrow> None | JsUndefined \<Rightarrow> None);
          databaseValue =
            (case (remoteDatabaseId, d1_database_name d) of
               (Some i, Some n) \<Rightarrow> if i \<noteq> [] \<and> n \<noteq> [] then Some (n @ '' ('' @ i @ '')'') else Some i
             | (Some i, None) \<Rightarrow> Some i
             | (None, n) \<Rightarrow> n)
      in case d1_preview_database_id d of
           None \<Rightarrow> databaseValue
         | Some p \<Rightarrow>
             if p \<noteq> [] \<and> d1_database_id d \<noteq> JsString ''local'' then
               Some ((if truthy_str databaseValue
                      then (case databaseValue of Some v \<Rightarrow> v @ '', '' | None \<Rightarrow> [])
                      else []) @ ''Preview: ('' @ p @ '')'')
             else databaseValue)"

definition d1_database_entry ::
  "(js_value \<Rightarrow> bool option \<Rightarrow> string) \<Rightarrow> d1_database \<Rightarrow> entry" where
  "d1_database_entry addSuffix d =
     \<lparr>key = d1_binding d,
      val = addSuffix (case d1_database_value d of Some v \<Rightarrow> JsString v | None \<Rightarrow> JsUndefined)
              (Some (\<not> truthy (d1_remote d)))\<rparr>"

definition vectorize_entry ::
  "(js_value \<Rightarrow> bool option \<Rightarrow> string) \<Rightarrow> vectorize_index \<Rightarrow> entry" where
  "vectorize_entry addSuffix v =
     \<lparr>key = vec_binding v, val = addSuffix (JsString (vec_index_name v)) None\<rparr>"

definition hyperdrive_entry ::
  "(js_value \<Rightarrow> bool option \<Rightarrow> string) \<Rightarrow> hyperdrive_config \<Rightarrow> entry" where
  "hyperdrive_entry addSuffix h =
     \<lparr>key = hd_binding h, val = addSuffix (JsString (hd_id h)) (Some True)\<rparr>"

definition r2_bucket_entry ::
  "(js_value \<Rightarrow> bool option \<Rightarrow> string) \<Rightarrow> r2_bucket \<Rightarrow> entry" where
  "r2_bucket_entry addSuffix r =
     (let name0 = (case r2_bucket_name r of JsString s \<Rightarrow> s | JsSymbol \<Rightarrow> [] | JsUndefined \<Rightarrow> []);
          name1 = (case r2_jurisdiction r of None \<Rightarrow> name0
                   | Some j \<Rightarrow> name0 @ '' ('' @ j @ '')'')
      in \<lparr>key = r2_binding r,
          val = addSuffix (JsString name1) (Some (\<not> truthy (r2_remote r)))\<rparr>)"

definition logfwdr_entry ::
  "(js_value \<Rightarrow> bool option \<Rightarrow> string) \<Rightarrow> logfwdr_binding \<Rightarrow> entry" where
  "logfwdr_entry addSuffix l =
     \<lparr>key = lf_name l, val = addSuffix (JsString (lf_destination l)) None\<rparr>"

definition secrets_store_secret_entry ::
  "(js_value \<Rightarrow> bool option \<Rightarrow> string) \<Rightarrow> secrets_store_secret \<Rightarrow> entry" where
  "secrets_store_secret_entry addSuffix x =
     \<lparr>key = ss_binding x,
      val = addSuffix (JsString (ss_store_id x @ ''/'' @ ss_secret_name x)) (Some True)\<rparr>"

definition analytics_engine_entry ::
  "(js_value \<Rightarrow> bool option \<Rightarrow> string) \<Rightarrow> analytics_engine_dataset \<Rightarrow> entry" where
  "analytics_engine_entry addSuffix a =
     \<lparr>key = ae_binding a,
      val = addSuffix (JsString (case ae_dataset a of Some d \<Rightarrow> d | None \<Rightarrow> ae_binding a))
              (Some True)\<rparr>"

definition text_blob_entry ::
  "'j env \<Rightarrow> (js_value \<Rightarrow> bool option \<Rightarrow> string) \<Rightarrow> string \<times> string \<Rightarrow> entry" where
  "text_blob_entry e addSuffix kv =
     \<lparr>key = fst kv, val = addSuffix (JsString (truncate_item e (ItemString (snd kv)))) None\<rparr>"

definition ai_entries :: "(js_value \<Rightarrow> bool option \<Rightarrow> string) \<Rightarrow> ai_binding \<Rightarrow> entry list" where
  "ai_entries addSuffix a =
     [\<lparr>key = ''Name'', val = addSuffix (JsString (ai_name a)) None\<rparr>] @
     (if truthy (ai_staging a)
      then [\<lparr>key = ''Staging'', val = addSuffix (JsString ''true'') (Some False)\<rparr>]
      else [])"

definition pipeline_entry :: "(js_value \<Rightarrow> bool option \<Rightarrow> string) \<Rightarrow> pipeline \<Rightarrow> entry" where
  "pipeline_entry addSuffix p =
     \<lparr>key = pl_binding p, val = addSuffix (JsString (pl_pipeline p)) None\<rparr>"

definition unsafe_binding_entry ::
  "(js_value \<Rightarrow> bool option \<Rightarrow> string) \<Rightarrow> unsafe_binding \<Rightarrow> entry" where
  "unsafe_binding_entry addSuffix u =
     \<lparr>key = ub_type u, val = addSuffix (JsString (ub_name u)) None\<rparr>"

definition var_entry :: "'j env \<Rightarrow> string \<times> 'j var_value \<Rightarrow> entry" where
  "var_entry e kv =
     \<lparr>key = fst kv,
      val = (case snd kv of
               VarString s \<Rightarrow> [CHR 0x22] @ truncate_item e (ItemString s) @ [CHR 0x22]
             | VarObject j \<Rightarrow> stringify_indent e j
             | VarOther j \<Rightarrow> truncate_item e (ItemString (template e j)))\<rparr>"

definition wasm_module_entry ::
  "'j env \<Rightarrow> (js_value \<Rightarrow> bool option \<Rightarrow> string) \<Rightarrow> string \<times> module_value \<Rightarrow> entry" where
  "wasm_module_entry e addSuffix kv =
     \<lparr>key = fst kv,
      val = addSuffix (JsString (case snd kv of
                                   ModuleString s \<Rightarrow> truncate_item e (ItemString s)
                                 | ModuleBinary \<Rightarrow> ''<Wasm>'')) None\<rparr>"

definition dispatch_namespace_entry ::
  "(js_value \<Rightarrow> bool option \<Rightarrow> string) \<Rightarrow> dispatch_namespace \<Rightarrow> entry" where
  "dispatch_namespace_entry addSuffix d =
     \<lparr>key = dn_binding d,
      val = addSuffix (JsString (case dn_outbound d of
                                   Some s \<Rightarrow> dn_namespace d @ '' (outbound -> '' @ s @ '')''
                                 | None \<Rightarrow> dn_namespace d)) None\<rparr>"

definition mtls_certificate_entry ::
  "(js_value \<Rightarrow> bool option \<Rightarrow> string) \<Rightarrow> mtls_certificate \<Rightarrow> entry" where
  "mtls_certificate_entry addSuffix m =
     \<lparr>key = mtls_binding m, val = addSuffix (JsString (mtls_certificate_id m)) None\<rparr>"

definition unsafe_metadata_entry ::
  "'j env \<Rightarrow> (js_value \<Rightarrow> bool option \<Rightarrow> string) \<Rightarrow> string \<times> 'j \<Rightarrow> entry" where
  "unsafe_metadata_entry e addSuffix kv =
     \<lparr>key = fst kv, val = addSuffix (JsString (stringify e (snd kv))) None\<rparr>"

section \<open>Groups\<close>

text \<open>
  \<open>if (xs !== undefined && xs.length > 0) output.push({ name, entries: xs.map(f) })\<close>,
  as the list pushed; for an object used as a map, \<open>xs\<close> is its \<open>Object.entries\<close>.
\<close>

definition list_group ::
  "binding_kind \<Rightarrow> ('a \<Rightarrow> entry) \<Rightarrow> 'a list option \<Rightarrow> display_group list" where
  "list_group k f payload =
     (case payload of
        None \<Rightarrow> []
      | Some xs \<Rightarrow>
          if length xs > 0
          then [\<lparr>group_name = friendlyBindingNames k, entries = map f xs\<rparr>]
          else [])"

text \<open>\<open>if (x !== undefined) output.push({ name, entries: f(x) })\<close>\<close>

definition single_group ::
  "binding_kind \<Rightarrow> ('a \<Rightarrow> entry list) \<Rightarrow> 'a option \<Rightarrow> display_group list" where
  "single_group k f payload =
     (case payload of
        None \<Rightarrow> []
      | Some x \<Rightarrow> [\<lparr>group_name = friendlyBindingNames k, entries = f x\<rparr>])"

text \<open>The same for a kind whose callback assigns to the state.\<close>

definition list_group_st ::
  "binding_kind \<Rightarrow> ('a \<Rightarrow> pstate \<Rightarrow> entry \<times> pstate) \<Rightarrow> 'a list option \<Rightarrow> pstate
     \<Rightarrow> display_group list \<times> pstate" where
  "list_group_st k f payload st =
     (case payload of
        None \<Rightarrow> ([], st)
      | Some xs \<Rightarrow>
          if length xs > 0
          then (case map_st f xs st of
                  (es, st1) \<Rightarrow> ([\<lparr>group_name = friendlyBindingNames k, entries = es\<rparr>], st1))
          else ([], st))"

text \<open>The same for a kind whose callback may also throw.\<close>

definition list_group_err ::
  "binding_kind \<Rightarrow> ('a \<Rightarrow> pstate \<Rightarrow> error + entry \<times> pstate) \<Rightarrow> 'a list option \<Rightarrow> pstate
     \<Rightarrow> error + display_group list \<times> pstate" where
  "list_group_err k f payload st =
     (case payload of
        None \<Rightarrow> Inr ([], st)
      | Some xs \<Rightarrow>
          if length xs > 0
          then (case map_st_err f xs st of
                  Inl err \<Rightarrow> Inl err
                | Inr (es, st1) \<Rightarrow>
                    Inr ([\<lparr>group_name = friendlyBindingNames k, entries = es\<rparr>], st1))
          else Inr ([], st))"

text \<open>
  \<open>unsafe?.bindings\<close> and \<open>unsafe?.metadata\<close>. The metadata group is pushed whenever
  \<open>unsafe.metadata\<close> is defined.
\<close>

definition unsafe_bindings_of :: "'j unsafe_config option \<Rightarrow> unsafe_binding list option" where
  "unsafe_bindings_of u = (case u of None \<Rightarrow> None | Some x \<Rightarrow> unsafe_bindings x)"

definition unsafe_metadata_of :: "'j unsafe_config option \<Rightarrow> (string \<times> 'j) list option" where
  "unsafe_metadata_of u = (case u of None \<Rightarrow> None | Some x \<Rightarrow> unsafe_metadata x)"

text \<open>The groups of a given name, in the order of the output.\<close>

definition groups_named :: "string \<Rightarrow> display_group list \<Rightarrow> display_group list" where
  "groups_named n gs = filter (\<lambda>g. group_name g = n) gs"

section \<open>printBindings\<close>

text \<open>
  The function logs; it returns nothing, or throws. The model returns what decides the log: the
  \<open>output\<close> array (\<open>output_groups\<close>), the lines of the tail consumers (empty when the list is empty, and
  then nothing is logged for them) and the final state, whose \<open>hasConnectionStatus\<close>
  decides the footnote. The titles and the joining of lines are left out. When a
  callback of the Durable Object bindings throws, the function ends there and logs nothing.
\<close>

record result =
  output_groups :: "display_group list"
  tailLines :: "string list"
  final :: pstate

definition printBindings ::
  "'j env \<Rightarrow> 'j bindings \<Rightarrow> tail_consumer list \<Rightarrow> ctx \<Rightarrow> error + result" where
  "printBindings e b tailConsumers c =
     (let addSuffix = createAddSuffix (provisioning c) (local c);
          addImagesSuffix = createAddSuffix (provisioning c) (Some (truthy (imagesLocalMode c)));
          st0 = \<lparr>hasConnectionStatus = False, resolved = []\<rparr>
      in
      case list_group_err Durable_objects (durable_object_entry e c) (durable_objects b) st0 of
        Inl err \<Rightarrow> Inl err
      | Inr g_durable \<Rightarrow>
         (let
          g_services = list_group_st Services (service_entry e c) (services b) (snd g_durable);
          out =
            list_group Data_blobs (data_blob_entry e) (data_blobs b)
            @ fst g_durable
            @ list_group Workflows (workflow_entry addSuffix) (workflows b)
            @ list_group Kv_namespaces (kv_namespace_entry addSuffix) (kv_namespaces b)
            @ list_group Send_email (send_email_entry addSuffix) (send_email b)
            @ list_group Queues (queue_entry addSuffix) (queues b)
            @ list_group D1_databases (d1_database_entry addSuffix) (d1_databases b)
            @ list_group Vectorize (vectorize_entry addSuffix) (vectorize b)
            @ list_group Hyperdrive (hyperdrive_entry addSuffix) (hyperdrive b)
            @ list_group R2_buckets (r2_bucket_entry addSuffix) (r2_buckets b)
            @ list_group Logfwdr (logfwdr_entry addSuffix) (logfwdr b)
            @ list_group Secrets_store_secrets (secrets_store_secret_entry addSuffix)
                (secrets_store_secrets b)
            @ fst g_services
            @ list_group Analytics_engine_datasets (analytics_engine_entry addSuffix)
                (analytics_engine_datasets b)
            @ list_group Text_blobs (text_blob_entry e addSuffix) (text_blobs b)
            @ single_group Browser (\<lambda>x. [\<lparr>key = ''Name'', val = sb_binding x\<rparr>]) (browser b)
            @ single_group Images
                (\<lambda>x. [\<lparr>key = ''Name'', val = addImagesSuffix (JsString (sb_binding x)) None\<rparr>])
                (images b)
            @ single_group Ai (ai_entries addSuffix) (ai b)
            @ list_group Pipelines (pipeline_entry addSuffix) (pipelines b)
            @ single_group Assets (\<lambda>x. [\<lparr>key = ''Binding'', val = sb_binding x\<rparr>]) (assets b)
            @ single_group Version_metadata
                (\<lambda>x. [\<lparr>key = ''Name'', val = addSuffix (JsString (sb_binding x)) None\<rparr>])
                (version_metadata b)
            @ list_group Unsafe (unsafe_binding_entry addSuffix) (unsafe_bindings_of (unsafe b))
            @ list_group Vars (var_entry e) (vars b)
            @ list_group Wasm_modules (wasm_module_entry e addSuffix) (wasm_modules b)
            @ list_group Dispatch_namespaces (dispatch_namespace_entry addSuffix)
                (dispatch_namespaces b)
            @ list_group Mtls_certificates (mtls_certificate_entry addSuffix) (mtls_certificates b)
            @ single_group Unsafe (map (unsafe_metadata_entry e addSuffix))
                (unsafe_metadata_of (unsafe b));
          g_tail = (if length tailConsumers > 0
                    then map_st (tail_consumer_line e c) tailConsumers (snd g_services)
                    else ([], snd g_services))
      in Inr \<lparr>output_groups = out, tailLines = fst g_tail, final = snd g_tail\<rparr>))"

text \<open>A configuration with no binding at all, and the context \<open>{}\<close>.\<close>

definition no_bindings :: "'j bindings" where
  "no_bindings =
     \<lparr>data_blobs = None, durable_objects = None, workflows = None, kv_namespaces = None,
      send_email = None, queues = None, d1_databases = None, vectorize = None,
      hyperdrive = None, r2_buckets = None, logfwdr = None, secrets_store_secrets = None,
      services = None, analytics_engine_datasets = None, text_blobs = None, browser = None,
      images = None, ai = None, version_metadata = None, unsafe = None, vars = None,
      wasm_modules = None, dispatch_namespaces = None, mtls_certificates = None,
      pipelines = None, assets = None\<rparr>"

definition no_context :: ctx where
  "no_context = \<lparr>registry = RegistryUndefined, local = None, imagesLocalMode = None,
     ctx_name = None, provisioning = None\<rparr>"

section \<open>A concrete environment\<close>

text \<open>
  Used to evaluate the functions on concrete inputs: a terminal without colour support
  (both colour functions return their argument), \<open>MIXED_MODE\<close> off, and structured
  values represented by their JSON text.
\<close>

definition plain_env :: "string env" where
  "plain_env = \<lparr>green = (\<lambda>s. s), red = (\<lambda>s. s), MIXED_MODE = False,
     stringify = (\<lambda>v. v), stringify_indent = (\<lambda>v. v), template = (\<lambda>v. v)\<rparr>"

text \<open>
  A Durable Object binding to the class \<open>Counter\<close> of the Worker \<open>other-service\<close>, a
  service binding to the entrypoint \<open>Api\<close> of the same Worker, and a registry in which
  that Worker runs with both.
\<close>

definition counter_binding :: durable_object where
  "counter_binding =
     \<lparr>do_name = ''COUNTER'', do_class_name = ''Counter'', do_script_name = Some ''other-service''\<rparr>"

definition api_binding :: service_binding where
  "api_binding =
     \<lparr>svc_binding = ''API'', svc_service = ''other-service'', svc_entrypoint = Some ''Api'',
      svc_remote = None\<rparr>"

definition other_service :: worker_definition where
  "other_service =
     \<lparr>durableObjects = [\<lparr>className = ''Counter''\<rparr>],
      entrypointAddresses = Some [''Api'' \<mapsto> AddressObject ''127.0.0.1'' 8787]\<rparr>"

definition example_registry :: registry_value where
  "example_registry = Registry [''other-service'' \<mapsto> other_service]"

text \<open>
  Registries in which the Worker has an entry for \<open>Api\<close> without a usable address (the
  empty string, or \<open>undefined\<close>), and one in which it has no entrypoint at all.
\<close>

definition empty_address_registry :: registry_value where
  "empty_address_registry =
     Registry [''other-service'' \<mapsto>
       \<lparr>durableObjects = [], entrypointAddresses = Some [''Api'' \<mapsto> AddressString []]\<rparr>]"

definition undefined_address_registry :: registry_value where
  "undefined_address_registry =
     Registry [''other-service'' \<mapsto>
       \<lparr>durableObjects = [], entrypointAddresses = Some [''Api'' \<mapsto> AddressUndefined]\<rparr>]"

definition bare_registry :: registry_value where
  "bare_registry =
     Registry [''other-service'' \<mapsto>
       \<lparr>durableObjects = [], entrypointAddresses = Some Map.empty\<rparr>]"

definition local_context :: "registry_value \<Rightarrow> ctx" where
  "local_context r = \<lparr>registry = r, local = Some True, imagesLocalMode = None,
     ctx_name = None, provisioning = None\<rparr>"

text \<open>A configuration with one unsafe binding and one entry of unsafe metadata.\<close>

definition unsafe_example :: "string bindings" where
  "unsafe_example =
     no_bindings\<lparr>unsafe := Some
       \<lparr>unsafe_bindings = Some [\<lparr>ub_name = ''my-binding'', ub_type = ''plain_text''\<rparr>],
        unsafe_metadata = Some [(''build'', ''1'')]\<rparr>\<rparr>"

section \<open>Properties of the helpers\<close>

text \<open>
  C4. With provisioning on, or local development off (or unset), \<open>addSuffix\<close> returns
  the normalised value whatever the simulated-locally flag is. Otherwise it appends
  \<open>" [simulated locally]"\<close> when the flag is true and \<open>" [connected to remote resource]"\<close>
  when it is false or unset. A missing or symbolic value normalises to the empty string,
  a string to itself.
\<close>

theorem createAddSuffix_table:
  "(truthy isProvisioning \<or> \<not> truthy isLocalDev \<longrightarrow>
      createAddSuffix isProvisioning isLocalDev v sim = normalizeValue v) \<and>
   (\<not> truthy isProvisioning \<and> truthy isLocalDev \<longrightarrow>
      createAddSuffix isProvisioning isLocalDev v sim =
        normalizeValue v @
          (if truthy sim then '' [simulated locally]'' else '' [connected to remote resource]'')) \<and>
   normalizeValue JsUndefined = [] \<and> normalizeValue JsSymbol = [] \<and>
   normalizeValue (JsString s) = s"
  by (simp add: createAddSuffix_def normalizeValue_def)

theorem createAddSuffix_table_witness:
  "createAddSuffix (Some True) (Some True) (JsString ''my-kv'') (Some True) = ''my-kv'' \<and>
   createAddSuffix None None (JsString ''my-kv'') (Some True) = ''my-kv'' \<and>
   createAddSuffix (Some False) (Some True) (JsString ''my-kv'') (Some True)
     = ''my-kv [simulated locally]'' \<and>
   createAddSuffix None (Some True) (JsString ''my-kv'') None
     = ''my-kv [connected to remote resource]'' \<and>
   createAddSuffix None (Some True) JsSymbol None = '' [connected to remote resource]''"
  using createAddSuffix_table [of "Some True" "Some True" "JsString ''my-kv''" "Some True" "''my-kv''"]
    createAddSuffix_table [of None None "JsString ''my-kv''" "Some True" "''my-kv''"]
    createAddSuffix_table [of "Some False" "Some True" "JsString ''my-kv''" "Some True" "''my-kv''"]
    createAddSuffix_table [of None "Some True" "JsString ''my-kv''" None "''my-kv''"]
    createAddSuffix_table [of None "Some True" JsSymbol None "[]"]
  by (simp add: truthy_def)

text \<open>
  C5. A string of 40 code units or more is rendered in exactly 40, the last three being
  the ellipsis; a shorter string is rendered unchanged.
\<close>

theorem truncate_length:
  "(40 \<le> length s \<longrightarrow>
      length (truncate_item e (ItemString s)) = 40 \<and> suffix ''...'' (truncate_item e (ItemString s))) \<and>
   (length s < 40 \<longrightarrow> truncate_item e (ItemString s) = s)"
  by (simp add: truncate_item_def suffix_def)

theorem truncate_length_witness:
  "truncate_item plain_env (ItemString ''0123456789012345678901234567890123456789'')
     = ''0123456789012345678901234567890123456...'' \<and>
   truncate_item plain_env (ItemString ''bar'') = ''bar''"
  using truncate_length [of "''0123456789012345678901234567890123456789''" plain_env]
    truncate_length [of "''bar''" plain_env]
  by (simp add: truncate_item_def)

section \<open>Evaluation on concrete inputs\<close>

lemmas eval_defs = printBindings_def Let_def no_bindings_def no_context_def local_context_def
  list_group_def single_group_def list_group_st_def list_group_err_def counter_binding_def
  api_binding_def other_service_def example_registry_def empty_address_registry_def
  undefined_address_registry_def bare_registry_def plain_env_def durable_object_entry_def
  service_entry_def tail_consumer_line_def registry_get_def get_property_def
  object_prototype_names_def truthy_address_def is_null_def truthy_def truthy_str_def
  service_value_def service_connected_def createAddSuffix_def normalizeValue_def
  unsafe_bindings_of_def unsafe_metadata_of_def

section \<open>The flag across a render\<close>

text \<open>
  Each callback leaves the flag set if it was, and sets it exactly when it reads the
  registry.
\<close>

lemma durable_object_entry_flag:
  "durable_object_entry e c d st = Inr (y, st1) \<Longrightarrow>
   hasConnectionStatus st1 =
     (hasConnectionStatus st \<or>
      truthy (local c) \<and> \<not> is_null (registry c) \<and> truthy_str (do_script_name d))"
  by (auto simp add: durable_object_entry_def Let_def truthy_str_def
      split: option.splits if_splits property.splits)

lemma service_entry_flag:
  "hasConnectionStatus (snd (service_entry e c s st)) =
     (hasConnectionStatus st \<or>
      truthy (local c) \<and> \<not> is_null (registry c) \<and> \<not> truthy (svc_remote s))"
  by (auto simp add: service_entry_def Let_def)

lemma tail_consumer_line_flag:
  "hasConnectionStatus (snd (tail_consumer_line e c t st)) =
     (hasConnectionStatus st \<or> truthy (local c) \<and> \<not> is_null (registry c))"
  by (auto simp add: tail_consumer_line_def Let_def)

lemma map_st_flag:
  assumes "\<And>x st. hasConnectionStatus (snd (f x st)) = (hasConnectionStatus st \<or> Q x)"
  shows "hasConnectionStatus (snd (map_st f xs st))
           = (hasConnectionStatus st \<or> (\<exists>x \<in> set xs. Q x))"
proof (induction xs arbitrary: st)
  case Nil
  then show ?case by simp
next
  case (Cons x xs)
  have "hasConnectionStatus (snd (map_st f (x # xs) st))
          = hasConnectionStatus (snd (map_st f xs (snd (f x st))))"
    by (simp add: split_beta)
  also have "\<dots> = (hasConnectionStatus (snd (f x st)) \<or> (\<exists>x \<in> set xs. Q x))"
    by (rule Cons.IH)
  finally show ?case using assms [of x st] by auto
qed

lemma map_st_err_flag:
  assumes step: "\<And>x st y st1. f x st = Inr (y, st1) \<Longrightarrow>
                   hasConnectionStatus st1 = (hasConnectionStatus st \<or> Q x)"
    and run: "map_st_err f xs st = Inr (ys, st2)"
  shows "hasConnectionStatus st2 = (hasConnectionStatus st \<or> (\<exists>x \<in> set xs. Q x))"
  using run
proof (induction xs arbitrary: st ys)
  case Nil
  then show ?case by simp
next
  case (Cons x xs)
  from Cons.prems obtain y st1 zs where
    1: "f x st = Inr (y, st1)" and 2: "map_st_err f xs st1 = Inr (zs, st2)"
    by (auto split: sum.splits)
  have "hasConnectionStatus st2 = (hasConnectionStatus st1 \<or> (\<exists>x \<in> set xs. Q x))"
    using 2 by (rule Cons.IH)
  then show ?case using step [OF 1] by auto
qed

lemma list_group_st_flag:
  assumes "\<And>x st. hasConnectionStatus (snd (f x st)) = (hasConnectionStatus st \<or> Q x)"
  shows "hasConnectionStatus (snd (list_group_st k f payload st))
           = (hasConnectionStatus st \<or> (\<exists>xs x. payload = Some xs \<and> x \<in> set xs \<and> Q x))"
proof (cases payload)
  case None
  then show ?thesis by (simp add: list_group_st_def)
next
  case (Some xs)
  show ?thesis
  proof (cases "xs = []")
    case True
    then show ?thesis using Some by (simp add: list_group_st_def)
  next
    case False
    then show ?thesis
      using Some map_st_flag [of f Q xs st, OF assms]
      by (auto simp add: list_group_st_def split_beta)
  qed
qed

lemma list_group_err_flag:
  assumes step: "\<And>x st y st1. f x st = Inr (y, st1) \<Longrightarrow>
                   hasConnectionStatus st1 = (hasConnectionStatus st \<or> Q x)"
    and run: "list_group_err k f payload st = Inr (g, st2)"
  shows "hasConnectionStatus st2
           = (hasConnectionStatus st \<or> (\<exists>xs x. payload = Some xs \<and> x \<in> set xs \<and> Q x))"
proof (cases payload)
  case None
  then show ?thesis using run by (simp add: list_group_err_def)
next
  case (Some xs)
  show ?thesis
  proof (cases "xs = []")
    case True
    then show ?thesis using Some run by (simp add: list_group_err_def)
  next
    case False
    then obtain es where "map_st_err f xs st = Inr (es, st2)"
      using Some run by (auto simp add: list_group_err_def split: sum.splits)
    then have "hasConnectionStatus st2 = (hasConnectionStatus st \<or> (\<exists>x \<in> set xs. Q x))"
      using step by (rule map_st_err_flag [rotated])
    then show ?thesis using Some by auto
  qed
qed

lemma snd_tail_lines:
  "snd (if length tcs > 0 then map_st f tcs s else ([], s)) = snd (map_st f tcs s)"
  by (cases tcs) simp_all

text \<open>The final state of a render that returns.\<close>

lemma final_printBindings:
  assumes "printBindings e b tcs c = Inr r"
  shows "\<exists>g s1.
     list_group_err Durable_objects (durable_object_entry e c) (durable_objects b)
       \<lparr>hasConnectionStatus = False, resolved = []\<rparr> = Inr (g, s1) \<and>
     final r = snd (map_st (tail_consumer_line e c) tcs
                 (snd (list_group_st Services (service_entry e c) (services b) s1)))"
proof (cases "list_group_err Durable_objects (durable_object_entry e c) (durable_objects b)
       \<lparr>hasConnectionStatus = False, resolved = []\<rparr>")
  case (Inl err)
  then show ?thesis using assms unfolding printBindings_def Let_def by simp
next
  case (Inr gs)
  obtain g s1 where gs: "gs = (g, s1)" by (cases gs)
  have "final r = snd (map_st (tail_consumer_line e c) tcs
                 (snd (list_group_st Services (service_entry e c) (services b) s1)))"
    using assms Inr gs unfolding printBindings_def Let_def
    by (auto simp only: sum.case sum.inject snd_conv result.select_convs snd_tail_lines)
  then show ?thesis using Inr gs by blast
qed

text \<open>
  A render that returns reports the flag as true exactly when it is in local
  development, the registry is not \<open>null\<close>, and there is a Durable Object binding with a
  \<open>script_name\<close>, a service binding without \<open>remote: true\<close>, or a tail consumer: the
  cases in which \<open>context.registry?.[n]\<close> is evaluated.
\<close>

lemma hasConnectionStatus_final:
  assumes "printBindings e b tcs c = Inr r"
  shows "hasConnectionStatus (final r) =
     (truthy (local c) \<and> \<not> is_null (registry c) \<and>
      ((\<exists>ds d. durable_objects b = Some ds \<and> d \<in> set ds \<and> truthy_str (do_script_name d)) \<or>
       (\<exists>ss s. services b = Some ss \<and> s \<in> set ss \<and> \<not> truthy (svc_remote s)) \<or>
       tcs \<noteq> []))"
proof -
  let ?L = "truthy (local c) \<and> \<not> is_null (registry c)"
  obtain g s1 where
    d: "list_group_err Durable_objects (durable_object_entry e c) (durable_objects b)
          \<lparr>hasConnectionStatus = False, resolved = []\<rparr> = Inr (g, s1)"
    and f: "final r = snd (map_st (tail_consumer_line e c) tcs
                 (snd (list_group_st Services (service_entry e c) (services b) s1)))"
    using final_printBindings [OF assms] by blast
  have df: "hasConnectionStatus st1 = (hasConnectionStatus st \<or> ?L \<and> truthy_str (do_script_name x))"
    if "durable_object_entry e c x st = Inr (y, st1)" for x st y st1
    using durable_object_entry_flag [OF that] by blast
  have sf: "hasConnectionStatus (snd (service_entry e c x st))
              = (hasConnectionStatus st \<or> ?L \<and> \<not> truthy (svc_remote x))" for x st
    using service_entry_flag [of e c x st] by blast
  have tf: "hasConnectionStatus (snd (tail_consumer_line e c x st)) = (hasConnectionStatus st \<or> ?L)"
    for x st
    using tail_consumer_line_flag [of e c x st] by blast
  have 1: "hasConnectionStatus s1 =
     (\<exists>ds d. durable_objects b = Some ds \<and> d \<in> set ds \<and> ?L \<and> truthy_str (do_script_name d))"
    using list_group_err_flag [where Q = "\<lambda>d. ?L \<and> truthy_str (do_script_name d)", OF df d]
    by simp
  have 2: "hasConnectionStatus (snd (list_group_st Services (service_entry e c) (services b) s1))
     = (hasConnectionStatus s1 \<or>
        (\<exists>ss s. services b = Some ss \<and> s \<in> set ss \<and> ?L \<and> \<not> truthy (svc_remote s)))"
    by (rule list_group_st_flag [where Q = "\<lambda>s. ?L \<and> \<not> truthy (svc_remote s)"])
       (rule sf)
  have 3: "hasConnectionStatus (final r)
     = (hasConnectionStatus (snd (list_group_st Services (service_entry e c) (services b) s1))
        \<or> (\<exists>t \<in> set tcs. ?L))"
    unfolding f
    by (rule map_st_flag [where Q = "\<lambda>t. ?L"]) (rule tf)
  have 4: "(\<exists>t \<in> set tcs. ?L) = (?L \<and> tcs \<noteq> [])" by (cases tcs) auto
  show ?thesis unfolding 3 2 1 4 by blast
qed

section \<open>When a render returns\<close>

lemma durable_object_entry_returns:
  assumes "\<And>sn. do_script_name d = Some sn \<Longrightarrow> registry_get (registry c) sn \<noteq> Inherited"
  shows "\<exists>y st1. durable_object_entry e c d st = Inr (y, st1)"
proof (cases "do_script_name d")
  case None
  then show ?thesis by (simp add: durable_object_entry_def)
next
  case (Some sn)
  then have "registry_get (registry c) sn \<noteq> Inherited" by (rule assms)
  then show ?thesis using Some
    by (cases "registry_get (registry c) sn") (simp_all add: durable_object_entry_def Let_def)
qed

lemma map_st_err_returns:
  assumes "\<And>x st. x \<in> set xs \<Longrightarrow> \<exists>y st1. f x st = Inr (y, st1)"
  shows "\<exists>ys st2. map_st_err f xs st = Inr (ys, st2)"
  using assms
proof (induction xs arbitrary: st)
  case Nil
  then show ?case by simp
next
  case (Cons x xs)
  obtain y st1 where 1: "f x st = Inr (y, st1)" using Cons.prems [of x st] by auto
  have "\<exists>ys st2. map_st_err f xs st1 = Inr (ys, st2)"
    by (rule Cons.IH) (simp add: Cons.prems)
  then show ?case using 1 by auto
qed

text \<open>
  A render returns when no Durable Object binding names a member that the registry
  inherits from \<open>Object.prototype\<close>; so it does when the registry is \<open>null\<close> or absent.
\<close>

lemma printBindings_returns:
  assumes "\<And>ds d sn. durable_objects b = Some ds \<Longrightarrow> d \<in> set ds \<Longrightarrow> do_script_name d = Some sn
             \<Longrightarrow> registry_get (registry c) sn \<noteq> Inherited"
  shows "\<exists>r. printBindings e b tcs c = Inr r"
proof -
  let ?s0 = "\<lparr>hasConnectionStatus = False, resolved = []\<rparr>"
  have "\<exists>g st2. list_group_err Durable_objects (durable_object_entry e c) (durable_objects b) ?s0
          = Inr (g, st2)"
  proof (cases "durable_objects b")
    case None
    then show ?thesis by (simp add: list_group_err_def)
  next
    case (Some ds)
    have "\<exists>ys st2. map_st_err (durable_object_entry e c) ds ?s0 = Inr (ys, st2)"
      by (rule map_st_err_returns, rule durable_object_entry_returns) (rule assms [OF Some])
    then show ?thesis using Some by (auto simp add: list_group_err_def)
  qed
  then show ?thesis unfolding printBindings_def Let_def by auto
qed

lemma registry_get_not_object:
  "registry c = RegistryNull \<or> registry c = RegistryUndefined \<Longrightarrow>
   registry_get (registry c) n = NoProperty"
  by (auto simp add: registry_get_def)

text \<open>
  C7. A render reads the registry (evaluates \<open>context.registry?.[n]\<close>) exactly when it is
  in local development with a registry that is not \<open>null\<close> and there is a Durable Object
  binding with a \<open>script_name\<close>, a service binding without \<open>remote: true\<close>, or a tail
  consumer. A render that returns reports \<open>hasConnectionStatus\<close> as true in exactly these
  cases, whatever the reads give. The registries for which the specification has the
  verdict unknown are the absent one and \<open>null\<close>. With an absent registry no read finds
  anything, and the render returns and reports the flag as true; with \<open>null\<close> the render
  reads nothing, returns and reports the flag as false.
\<close>

theorem hasConnectionStatus_iff_registry_read:
  "(\<forall>r. printBindings e b tcs c = Inr r \<longrightarrow>
      (hasConnectionStatus (final r) \<longleftrightarrow>
         truthy (local c) \<and> \<not> is_null (registry c) \<and>
         ((\<exists>ds d. durable_objects b = Some ds \<and> d \<in> set ds \<and> truthy_str (do_script_name d)) \<or>
          (\<exists>ss s. services b = Some ss \<and> s \<in> set ss \<and> \<not> truthy (svc_remote s)) \<or>
          tcs \<noteq> []))) \<and>
   (registry c = RegistryUndefined \<and> truthy (local c) \<and>
      ((\<exists>ds d. durable_objects b = Some ds \<and> d \<in> set ds \<and> truthy_str (do_script_name d)) \<or>
       (\<exists>ss s. services b = Some ss \<and> s \<in> set ss \<and> \<not> truthy (svc_remote s)) \<or>
       tcs \<noteq> []) \<longrightarrow>
      (\<exists>r. printBindings e b tcs c = Inr r \<and> hasConnectionStatus (final r))) \<and>
   (registry c = RegistryNull \<longrightarrow>
      (\<exists>r. printBindings e b tcs c = Inr r \<and> \<not> hasConnectionStatus (final r)))"
proof -
  let ?reads = "(\<exists>ds d. durable_objects b = Some ds \<and> d \<in> set ds \<and> truthy_str (do_script_name d)) \<or>
       (\<exists>ss s. services b = Some ss \<and> s \<in> set ss \<and> \<not> truthy (svc_remote s)) \<or>
       tcs \<noteq> []"
  have 1: "\<forall>r. printBindings e b tcs c = Inr r \<longrightarrow>
      (hasConnectionStatus (final r) \<longleftrightarrow>
         truthy (local c) \<and> \<not> is_null (registry c) \<and> ?reads)"
    using hasConnectionStatus_final [of e b tcs c] by blast
  have 2: "\<exists>r. printBindings e b tcs c = Inr r \<and> hasConnectionStatus (final r)"
    if u: "registry c = RegistryUndefined" and l: "truthy (local c)" and rd: ?reads
  proof -
    have "registry_get (registry c) n \<noteq> Inherited" for n
      using u by (simp add: registry_get_def)
    then obtain r where r: "printBindings e b tcs c = Inr r"
      using printBindings_returns [of b c e tcs] by blast
    have "\<not> is_null (registry c)" using u by (simp add: is_null_def)
    then have "hasConnectionStatus (final r)"
      using hasConnectionStatus_final [OF r] l rd by blast
    then show ?thesis using r by blast
  qed
  have 3: "\<exists>r. printBindings e b tcs c = Inr r \<and> \<not> hasConnectionStatus (final r)"
    if n: "registry c = RegistryNull"
  proof -
    have "registry_get (registry c) x \<noteq> Inherited" for x
      using n by (simp add: registry_get_def)
    then obtain r where r: "printBindings e b tcs c = Inr r"
      using printBindings_returns [of b c e tcs] by blast
    have "is_null (registry c)" using n by (simp add: is_null_def)
    then have "\<not> hasConnectionStatus (final r)"
      using hasConnectionStatus_final [OF r] by blast
    then show ?thesis using r by blast
  qed
  show ?thesis using 1 2 3 by blast
qed

theorem hasConnectionStatus_iff_registry_read_witness:
  "printBindings plain_env (no_bindings\<lparr>durable_objects := Some [counter_binding]\<rparr>) []
      (local_context RegistryUndefined)
   = Inr \<lparr>output_groups =
            [\<lparr>group_name = ''Durable Objects'',
              entries = [\<lparr>key = ''COUNTER'',
                         val = ''Counter (defined in other-service [not connected])''\<rparr>]\<rparr>],
          tailLines = [],
          final = \<lparr>hasConnectionStatus = True, resolved = [''other-service'']\<rparr>\<rparr> \<and>
   hasConnectionStatus \<lparr>hasConnectionStatus = True, resolved = [''other-service'']\<rparr> \<and>
   printBindings plain_env (no_bindings\<lparr>durable_objects := Some [counter_binding]\<rparr>) []
      (local_context RegistryNull)
   = Inr \<lparr>output_groups =
            [\<lparr>group_name = ''Durable Objects'',
              entries = [\<lparr>key = ''COUNTER'', val = ''Counter (defined in other-service)''\<rparr>]\<rparr>],
          tailLines = [],
          final = \<lparr>hasConnectionStatus = False, resolved = []\<rparr>\<rparr> \<and>
   \<not> hasConnectionStatus \<lparr>hasConnectionStatus = False, resolved = []\<rparr>"
proof -
  let ?b = "no_bindings\<lparr>durable_objects := Some [counter_binding]\<rparr> :: string bindings"
  let ?r1 = "\<lparr>output_groups =
            [\<lparr>group_name = ''Durable Objects'',
              entries = [\<lparr>key = ''COUNTER'',
                         val = ''Counter (defined in other-service [not connected])''\<rparr>]\<rparr>],
          tailLines = [],
          final = \<lparr>hasConnectionStatus = True, resolved = [''other-service'']\<rparr>\<rparr>"
  let ?r2 = "\<lparr>output_groups =
            [\<lparr>group_name = ''Durable Objects'',
              entries = [\<lparr>key = ''COUNTER'', val = ''Counter (defined in other-service)''\<rparr>]\<rparr>],
          tailLines = [],
          final = \<lparr>hasConnectionStatus = False, resolved = []\<rparr>\<rparr>"
  have 1: "printBindings plain_env ?b [] (local_context RegistryUndefined) = Inr ?r1"
    by (simp add: eval_defs)
  have 2: "printBindings plain_env ?b [] (local_context RegistryNull) = Inr ?r2"
    by (simp add: eval_defs)
  have "hasConnectionStatus (final ?r1)"
    using hasConnectionStatus_iff_registry_read [of plain_env ?b "[]" "local_context RegistryUndefined"] 1
    by (simp add: local_context_def no_bindings_def counter_binding_def truthy_def truthy_str_def
        is_null_def)
  moreover have "\<not> hasConnectionStatus (final ?r2)"
    using hasConnectionStatus_iff_registry_read [of plain_env ?b "[]" "local_context RegistryNull"] 2
    by (simp add: local_context_def is_null_def)
  ultimately show ?thesis using 1 2 by simp
qed

section \<open>Durable Object bindings\<close>

text \<open>
  C9. A Durable Object binding without a \<open>script_name\<close> (absent or empty) is shown as
  its \<open>class_name\<close> alone, and its callback returns and leaves the state, and so
  \<open>hasConnectionStatus\<close>, as it was, in every context.
\<close>

theorem durable_object_without_script_name:
  "\<not> truthy_str (do_script_name d) \<Longrightarrow>
   durable_object_entry e c d st = Inr (\<lparr>key = do_name d, val = do_class_name d\<rparr>, st)"
  by (simp add: durable_object_entry_def truthy_str_def split: option.splits)

theorem durable_object_without_script_name_witness:
  "durable_object_entry plain_env (local_context example_registry)
     (counter_binding\<lparr>do_script_name := Some []\<rparr>) \<lparr>hasConnectionStatus = False, resolved = []\<rparr>
   = Inr (\<lparr>key = ''COUNTER'', val = ''Counter''\<rparr>, \<lparr>hasConnectionStatus = False, resolved = []\<rparr>)"
proof -
  have h: "\<not> truthy_str (do_script_name (counter_binding\<lparr>do_script_name := Some []\<rparr>))"
    by (simp add: truthy_str_def)
  show ?thesis
    using durable_object_without_script_name [OF h]
    by (simp add: counter_binding_def)
qed

text \<open>
  C2, as amended. For a Durable Object binding with a non-empty \<open>script_name\<close>, in local
  development, with a registry that holds the named Worker: the value is the class name
  followed by \<open>(defined in <script_name> <marker>)\<close>, where the marker is the connected
  one if and only if the \<open>durableObjects\<close> of the registry entry contain an item whose
  \<open>className\<close> is the binding's \<open>class_name\<close>, and the not-connected one otherwise. The
  marker is followed by the closing parenthesis. In both cases a render that returns
  reports \<open>hasConnectionStatus\<close> as true.
\<close>

theorem durable_object_connectivity:
  assumes "do_script_name d = Some sn" and "sn \<noteq> []" and "truthy (local c)"
    and "registry c = Registry r" and "r sn = Some w"
  shows "durable_object_entry e c d st =
           Inr (\<lparr>key = do_name d,
                 val = do_class_name d @ '' (defined in '' @ sn @ '' '' @
                       (if \<exists>x \<in> set (durableObjects w). className x = do_class_name d
                        then green e ''[connected]'' else red e ''[not connected]'') @ '')''\<rparr>,
                st\<lparr>hasConnectionStatus := True, resolved := resolved st @ [sn]\<rparr>) \<and>
         (\<forall>b ds tcs res. durable_objects b = Some ds \<and> d \<in> set ds \<and>
              printBindings e b tcs c = Inr res \<longrightarrow>
            hasConnectionStatus (final res))"
proof -
  have entry: "durable_object_entry e c d st =
           Inr (\<lparr>key = do_name d,
                 val = do_class_name d @ '' (defined in '' @ sn @ '' '' @
                       (if \<exists>x \<in> set (durableObjects w). className x = do_class_name d
                        then green e ''[connected]'' else red e ''[not connected]'') @ '')''\<rparr>,
                st\<lparr>hasConnectionStatus := True, resolved := resolved st @ [sn]\<rparr>)"
    using assms
    by (simp add: durable_object_entry_def Let_def registry_get_def get_property_def is_null_def
        list_ex_iff)
  have "\<not> is_null (registry c)" using assms(4) by (simp add: is_null_def)
  moreover have "truthy_str (do_script_name d)" using assms(1,2) by (simp add: truthy_str_def)
  ultimately have "\<forall>b ds tcs res. durable_objects b = Some ds \<and> d \<in> set ds \<and>
              printBindings e b tcs c = Inr res \<longrightarrow>
            hasConnectionStatus (final res)"
    using assms(3) hasConnectionStatus_final by blast
  then show ?thesis using entry by blast
qed

theorem durable_object_connectivity_witness:
  "durable_object_entry plain_env (local_context example_registry)
     counter_binding \<lparr>hasConnectionStatus = False, resolved = []\<rparr>
   = Inr (\<lparr>key = ''COUNTER'', val = ''Counter (defined in other-service [connected])''\<rparr>,
          \<lparr>hasConnectionStatus = True, resolved = [''other-service'']\<rparr>)"
proof -
  let ?c = "local_context example_registry"
  have 1: "do_script_name counter_binding = Some ''other-service''"
    by (simp add: counter_binding_def)
  have 2: "''other-service'' \<noteq> []" by simp
  have 3: "truthy (local ?c)" by (simp add: local_context_def truthy_def)
  have 4: "registry ?c = Registry [''other-service'' \<mapsto> other_service]"
    by (simp add: local_context_def example_registry_def)
  have 5: "[''other-service'' \<mapsto> other_service] ''other-service'' = Some other_service" by simp
  show ?thesis
    using durable_object_connectivity [OF 1 2 3 4 5, of plain_env "\<lparr>hasConnectionStatus = False, resolved = []\<rparr>"]
    by (simp add: counter_binding_def other_service_def plain_env_def)
qed

text \<open>
  The claim as stated has the value end with the connected marker. In the scenario of
  the specification the value ends with the marker and a closing parenthesis.
\<close>

theorem connected_marker_not_last_counterexample:
  "printBindings plain_env (no_bindings\<lparr>durable_objects := Some [counter_binding]\<rparr>) []
      (local_context example_registry)
   = Inr \<lparr>output_groups =
            [\<lparr>group_name = ''Durable Objects'',
              entries = [\<lparr>key = ''COUNTER'',
                         val = ''Counter (defined in other-service [connected])''\<rparr>]\<rparr>],
          tailLines = [],
          final = \<lparr>hasConnectionStatus = True, resolved = [''other-service'']\<rparr>\<rparr>
   \<and> \<not> suffix (green plain_env ''[connected]'') ''Counter (defined in other-service [connected])''"
  by (simp add: eval_defs suffix_to_prefix)

section \<open>Service bindings\<close>





text \<open>
  Names that a plain object inherits are left out of the statement above. For them the
  function behaves as follows: a service named \<open>constructor\<close> is shown as connected by a
  registry without any entry, an entrypoint named \<open>toString\<close> by an entry without
  entrypoints, and the callback of a Durable Object binding whose \<open>script_name\<close> is
  \<open>constructor\<close> throws.
\<close>

lemma inherited_names:
  "fst (service_entry plain_env (local_context (Registry Map.empty))
     \<lparr>svc_binding = ''S'', svc_service = ''constructor'', svc_entrypoint = None, svc_remote = None\<rparr>
     st) = \<lparr>key = ''S'', val = ''constructor [connected]''\<rparr>"
  "fst (service_entry plain_env (local_context bare_registry)
     (api_binding\<lparr>svc_entrypoint := Some ''toString''\<rparr>) st)
     = \<lparr>key = ''API'', val = ''other-service#toString [connected]''\<rparr>"
  "durable_object_entry plain_env (local_context (Registry Map.empty))
     (counter_binding\<lparr>do_script_name := Some ''constructor''\<rparr>) st = Inl TypeError"
  by (simp_all add: eval_defs)

section \<open>A registry that is null or absent\<close>

text \<open>
  C1, as amended. With a registry that is \<open>null\<close>, no connected or not-connected marker
  is rendered for a Durable Object or service binding, the callbacks leave the state as it
  was, and the render returns and reports \<open>hasConnectionStatus\<close> as false. An absent
  (undefined) registry is treated as a registry in which the Worker is not found: in local
  development a Durable Object binding with a \<open>script_name\<close> and a service binding without
  \<open>remote: true\<close> get the not-connected marker and set \<open>hasConnectionStatus\<close>.
\<close>

theorem null_registry_no_marker:
  "(registry c = RegistryNull \<longrightarrow>
      durable_object_entry e c d st =
        Inr (\<lparr>key = do_name d,
              val = do_class_name d @
                    (case do_script_name d of
                       None \<Rightarrow> []
                     | Some sn \<Rightarrow> if sn = [] then [] else '' (defined in '' @ sn @ '')'')\<rparr>, st) \<and>
      service_entry e c s st =
        (\<lparr>key = svc_binding s,
          val = (if truthy (svc_remote s)
                 then createAddSuffix (provisioning c) (local c) (JsString (service_value s))
                        (Some False)
                 else service_value s)\<rparr>, st) \<and>
      (\<exists>r. printBindings e b tcs c = Inr r \<and> \<not> hasConnectionStatus (final r))) \<and>
   (registry c = RegistryUndefined \<longrightarrow>
      (\<forall>m. (\<forall>sn. do_script_name d = Some sn \<longrightarrow>
                 m sn = None \<and> sn \<notin> set object_prototype_names) \<longrightarrow>
            durable_object_entry e c d st
              = durable_object_entry e (c\<lparr>registry := Registry m\<rparr>) d st) \<and>
      (\<forall>m. m (svc_service s) = None \<and> svc_service s \<notin> set object_prototype_names \<longrightarrow>
            service_entry e c s st = service_entry e (c\<lparr>registry := Registry m\<rparr>) s st)) \<and>
   (registry c = RegistryUndefined \<and> truthy (local c) \<longrightarrow>
      (\<forall>sn. do_script_name d = Some sn \<and> sn \<noteq> [] \<longrightarrow>
         durable_object_entry e c d st =
           Inr (\<lparr>key = do_name d,
                 val = do_class_name d @ '' (defined in '' @ sn @ '' ''
                       @ red e ''[not connected]'' @ '')''\<rparr>,
                st\<lparr>hasConnectionStatus := True, resolved := resolved st @ [sn]\<rparr>)) \<and>
      (\<not> truthy (svc_remote s) \<longrightarrow>
         service_entry e c s st =
           (\<lparr>key = svc_binding s, val = service_value s @ '' '' @ red e ''[not connected]''\<rparr>,
            st\<lparr>hasConnectionStatus := True, resolved := resolved st @ [svc_service s]\<rparr>)))"
proof -
  have a: "registry c = RegistryNull \<longrightarrow>
      durable_object_entry e c d st =
        Inr (\<lparr>key = do_name d,
              val = do_class_name d @
                    (case do_script_name d of
                       None \<Rightarrow> []
                     | Some sn \<Rightarrow> if sn = [] then [] else '' (defined in '' @ sn @ '')'')\<rparr>, st)"
    by (simp add: durable_object_entry_def is_null_def split: option.splits)
  have b: "registry c = RegistryNull \<longrightarrow>
      service_entry e c s st =
        (\<lparr>key = svc_binding s,
          val = (if truthy (svc_remote s)
                 then createAddSuffix (provisioning c) (local c) (JsString (service_value s))
                        (Some False)
                 else service_value s)\<rparr>, st)"
    by (simp add: service_entry_def is_null_def Let_def)
  have c: "registry c = RegistryNull \<longrightarrow>
      (\<exists>r. printBindings e b tcs c = Inr r \<and> \<not> hasConnectionStatus (final r))"
  proof
    assume n: "registry c = RegistryNull"
    then have "registry_get (registry c) x \<noteq> Inherited" for x
      by (simp add: registry_get_def)
    then obtain r where r: "printBindings e b tcs c = Inr r"
      using printBindings_returns [of b c e tcs] by blast
    have "is_null (registry c)" using n by (simp add: is_null_def)
    then have "\<not> hasConnectionStatus (final r)"
      using hasConnectionStatus_final [OF r] by blast
    then show "\<exists>r. printBindings e b tcs c = Inr r \<and> \<not> hasConnectionStatus (final r)"
      using r by blast
  qed
  have d: "registry c = RegistryUndefined \<longrightarrow>
      (\<forall>m. (\<forall>sn. do_script_name d = Some sn \<longrightarrow>
                 m sn = None \<and> sn \<notin> set object_prototype_names) \<longrightarrow>
            durable_object_entry e c d st
              = durable_object_entry e (c\<lparr>registry := Registry m\<rparr>) d st)"
    by (auto simp add: durable_object_entry_def is_null_def registry_get_def get_property_def
        Let_def split: option.splits)
  have e: "registry c = RegistryUndefined \<longrightarrow>
      (\<forall>m. m (svc_service s) = None \<and> svc_service s \<notin> set object_prototype_names \<longrightarrow>
            service_entry e c s st = service_entry e (c\<lparr>registry := Registry m\<rparr>) s st)"
    by (auto simp add: service_entry_def is_null_def registry_get_def get_property_def Let_def)
  have f: "registry c = RegistryUndefined \<and> truthy (local c) \<longrightarrow>
      (\<forall>sn. do_script_name d = Some sn \<and> sn \<noteq> [] \<longrightarrow>
         durable_object_entry e c d st =
           Inr (\<lparr>key = do_name d,
                 val = do_class_name d @ '' (defined in '' @ sn @ '' ''
                       @ red e ''[not connected]'' @ '')''\<rparr>,
                st\<lparr>hasConnectionStatus := True, resolved := resolved st @ [sn]\<rparr>))"
    by (simp add: durable_object_entry_def is_null_def registry_get_def Let_def)
  have g: "registry c = RegistryUndefined \<and> truthy (local c) \<longrightarrow>
      (\<not> truthy (svc_remote s) \<longrightarrow>
         service_entry e c s st =
           (\<lparr>key = svc_binding s, val = service_value s @ '' '' @ red e ''[not connected]''\<rparr>,
            st\<lparr>hasConnectionStatus := True, resolved := resolved st @ [svc_service s]\<rparr>))"
    by (simp add: service_entry_def is_null_def registry_get_def Let_def service_connected_def)
  show ?thesis using a b c d e f g by blast
qed

theorem null_registry_no_marker_witness:
  "durable_object_entry plain_env (local_context RegistryNull) counter_binding
      \<lparr>hasConnectionStatus = False, resolved = []\<rparr>
    = Inr (\<lparr>key = ''COUNTER'', val = ''Counter (defined in other-service)''\<rparr>,
           \<lparr>hasConnectionStatus = False, resolved = []\<rparr>) \<and>
   service_entry plain_env (local_context RegistryNull) api_binding
      \<lparr>hasConnectionStatus = False, resolved = []\<rparr>
    = (\<lparr>key = ''API'', val = ''other-service#Api''\<rparr>,
       \<lparr>hasConnectionStatus = False, resolved = []\<rparr>) \<and>
   durable_object_entry plain_env (local_context RegistryUndefined) counter_binding
      \<lparr>hasConnectionStatus = False, resolved = []\<rparr>
    = Inr (\<lparr>key = ''COUNTER'', val = ''Counter (defined in other-service [not connected])''\<rparr>,
           \<lparr>hasConnectionStatus = True, resolved = [''other-service'']\<rparr>) \<and>
   service_entry plain_env (local_context RegistryUndefined) api_binding
      \<lparr>hasConnectionStatus = False, resolved = []\<rparr>
    = (\<lparr>key = ''API'', val = ''other-service#Api [not connected]''\<rparr>,
       \<lparr>hasConnectionStatus = True, resolved = [''other-service'']\<rparr>)"
  using null_registry_no_marker [of "local_context RegistryNull" plain_env counter_binding
      "\<lparr>hasConnectionStatus = False, resolved = []\<rparr>" api_binding no_bindings "[]"]
    null_registry_no_marker [of "local_context RegistryUndefined" plain_env counter_binding
      "\<lparr>hasConnectionStatus = False, resolved = []\<rparr>" api_binding no_bindings "[]"]
  by (simp add: local_context_def counter_binding_def api_binding_def plain_env_def truthy_def
      service_value_def durable_object_entry_def service_entry_def is_null_def registry_get_def
      service_connected_def truthy_str_def Let_def)

text \<open>
  The claim as stated has no marker and no \<open>hasConnectionStatus\<close> when the registry is
  absent. In local development the binding of the scenario is then shown as not connected
  and the flag is set.
\<close>

theorem absent_registry_counterexample:
  "printBindings plain_env (no_bindings\<lparr>durable_objects := Some [counter_binding]\<rparr>) []
      (local_context RegistryUndefined)
   = Inr \<lparr>output_groups =
            [\<lparr>group_name = ''Durable Objects'',
              entries = [\<lparr>key = ''COUNTER'',
                         val = ''Counter (defined in other-service [not connected])''\<rparr>]\<rparr>],
          tailLines = [],
          final = \<lparr>hasConnectionStatus = True, resolved = [''other-service'']\<rparr>\<rparr>"
  by (simp add: eval_defs)

section \<open>The output of a render that returns\<close>

lemma list_group_err_groups:
  assumes "list_group_err k f p st = Inr (gd, st1)"
  shows "\<forall>g \<in> set gd. group_name g = friendlyBindingNames k \<and> entries g \<noteq> []"
proof (cases p)
  case None
  then show ?thesis using assms by (simp add: list_group_err_def)
next
  case (Some xs)
  show ?thesis
  proof (cases xs)
    case Nil
    then show ?thesis using Some assms by (simp add: list_group_err_def)
  next
    case (Cons x ys)
    then show ?thesis using Some assms
      by (auto simp add: list_group_err_def split: sum.splits)
  qed
qed

lemma filter_list_group_err:
  assumes "list_group_err k f p st = Inr (gd, st1)"
  shows "filter (\<lambda>g. group_name g = n) gd = (if friendlyBindingNames k = n then gd else [])"
  using list_group_err_groups [OF assms] by (auto simp add: filter_empty_conv filter_id_conv)

lemma output_groups_printBindings:
  assumes "printBindings e b tcs c = Inr r"
  shows "\<exists>gd st1.
     list_group_err Durable_objects (durable_object_entry e c) (durable_objects b)
       \<lparr>hasConnectionStatus = False, resolved = []\<rparr> = Inr (gd, st1) \<and>
     output_groups r =
       (let addSuffix = createAddSuffix (provisioning c) (local c);
            addImagesSuffix = createAddSuffix (provisioning c) (Some (truthy (imagesLocalMode c)))
        in list_group Data_blobs (data_blob_entry e) (data_blobs b)
            @ gd
            @ list_group Workflows (workflow_entry addSuffix) (workflows b)
            @ list_group Kv_namespaces (kv_namespace_entry addSuffix) (kv_namespaces b)
            @ list_group Send_email (send_email_entry addSuffix) (send_email b)
            @ list_group Queues (queue_entry addSuffix) (queues b)
            @ list_group D1_databases (d1_database_entry addSuffix) (d1_databases b)
            @ list_group Vectorize (vectorize_entry addSuffix) (vectorize b)
            @ list_group Hyperdrive (hyperdrive_entry addSuffix) (hyperdrive b)
            @ list_group R2_buckets (r2_bucket_entry addSuffix) (r2_buckets b)
            @ list_group Logfwdr (logfwdr_entry addSuffix) (logfwdr b)
            @ list_group Secrets_store_secrets (secrets_store_secret_entry addSuffix)
                (secrets_store_secrets b)
            @ fst (list_group_st Services (service_entry e c) (services b) st1)
            @ list_group Analytics_engine_datasets (analytics_engine_entry addSuffix)
                (analytics_engine_datasets b)
            @ list_group Text_blobs (text_blob_entry e addSuffix) (text_blobs b)
            @ single_group Browser (\<lambda>x. [\<lparr>key = ''Name'', val = sb_binding x\<rparr>]) (browser b)
            @ single_group Images
                (\<lambda>x. [\<lparr>key = ''Name'', val = addImagesSuffix (JsString (sb_binding x)) None\<rparr>])
                (images b)
            @ single_group Ai (ai_entries addSuffix) (ai b)
            @ list_group Pipelines (pipeline_entry addSuffix) (pipelines b)
            @ single_group Assets (\<lambda>x. [\<lparr>key = ''Binding'', val = sb_binding x\<rparr>]) (assets b)
            @ single_group Version_metadata
                (\<lambda>x. [\<lparr>key = ''Name'', val = addSuffix (JsString (sb_binding x)) None\<rparr>])
                (version_metadata b)
            @ list_group Unsafe (unsafe_binding_entry addSuffix) (unsafe_bindings_of (unsafe b))
            @ list_group Vars (var_entry e) (vars b)
            @ list_group Wasm_modules (wasm_module_entry e addSuffix) (wasm_modules b)
            @ list_group Dispatch_namespaces (dispatch_namespace_entry addSuffix)
                (dispatch_namespaces b)
            @ list_group Mtls_certificates (mtls_certificate_entry addSuffix) (mtls_certificates b)
            @ single_group Unsafe (map (unsafe_metadata_entry e addSuffix))
                (unsafe_metadata_of (unsafe b)))"
proof (cases "list_group_err Durable_objects (durable_object_entry e c) (durable_objects b)
       \<lparr>hasConnectionStatus = False, resolved = []\<rparr>")
  case (Inl err)
  then show ?thesis using assms unfolding printBindings_def Let_def by simp
next
  case (Inr gs)
  obtain gd st1 where gs: "gs = (gd, st1)" by (cases gs)
  show ?thesis
    using assms Inr gs unfolding printBindings_def Let_def
    by clarsimp
qed

section \<open>Groups by name\<close>

lemma filter_list_group:
  "filter (\<lambda>g. group_name g = n) (list_group k f p)
     = (if friendlyBindingNames k = n then list_group k f p else [])"
  by (simp add: list_group_def split: option.splits)

lemma filter_single_group:
  "filter (\<lambda>g. group_name g = n) (single_group k f p)
     = (if friendlyBindingNames k = n then single_group k f p else [])"
  by (simp add: single_group_def split: option.splits)

lemma filter_list_group_st:
  "filter (\<lambda>g. group_name g = n) (fst (list_group_st k f p st))
     = (if friendlyBindingNames k = n then fst (list_group_st k f p st) else [])"
  by (simp add: list_group_st_def split_beta split: option.splits)

lemmas filter_groups = filter_append filter_list_group filter_single_group filter_list_group_st

text \<open>
  C8. With provisioning off or unset, the output of a render that returns has one group
  named \<open>Images\<close> when an Images binding is configured, with the single entry \<open>Name\<close>. Its
  value is the binding followed by \<open>" [connected to remote resource]"\<close> when
  \<open>imagesLocalMode\<close> is true, and the binding alone when it is false or unset.
  \<open>context.local\<close> plays no part.
\<close>

theorem images_suffix:
  assumes "images b = Some img" and "\<not> truthy (provisioning c)"
    and "printBindings e b tcs c = Inr r"
  shows "groups_named ''Images'' (output_groups r)
    = [\<lparr>group_name = ''Images'',
        entries = [\<lparr>key = ''Name'',
                    val = (if truthy (imagesLocalMode c)
                           then sb_binding img @ '' [connected to remote resource]''
                           else sb_binding img)\<rparr>]\<rparr>]"
  using output_groups_printBindings [OF assms(3)] assms(1,2)
  apply (elim exE conjE)
  apply (frule filter_list_group_err [where n = "''Images''"])
  apply (simp add: groups_named_def Let_def filter_groups)
  apply (simp add: single_group_def createAddSuffix_def normalizeValue_def truthy_def)
  done

theorem images_suffix_witness:
  "printBindings plain_env (no_bindings\<lparr>images := Some \<lparr>sb_binding = ''IMAGES''\<rparr>\<rparr>) []
      (local_context RegistryUndefined)
   = Inr \<lparr>output_groups =
            [\<lparr>group_name = ''Images'', entries = [\<lparr>key = ''Name'', val = ''IMAGES''\<rparr>]\<rparr>],
          tailLines = [], final = \<lparr>hasConnectionStatus = False, resolved = []\<rparr>\<rparr> \<and>
   groups_named ''Images''
     [\<lparr>group_name = ''Images'', entries = [\<lparr>key = ''Name'', val = ''IMAGES''\<rparr>]\<rparr>]
   = [\<lparr>group_name = ''Images'', entries = [\<lparr>key = ''Name'', val = ''IMAGES''\<rparr>]\<rparr>] \<and>
   printBindings plain_env (no_bindings\<lparr>images := Some \<lparr>sb_binding = ''IMAGES''\<rparr>\<rparr>) []
      (no_context\<lparr>imagesLocalMode := Some True\<rparr>)
   = Inr \<lparr>output_groups =
            [\<lparr>group_name = ''Images'',
              entries = [\<lparr>key = ''Name'', val = ''IMAGES [connected to remote resource]''\<rparr>]\<rparr>],
          tailLines = [], final = \<lparr>hasConnectionStatus = False, resolved = []\<rparr>\<rparr> \<and>
   groups_named ''Images''
     [\<lparr>group_name = ''Images'',
       entries = [\<lparr>key = ''Name'', val = ''IMAGES [connected to remote resource]''\<rparr>]\<rparr>]
   = [\<lparr>group_name = ''Images'',
       entries = [\<lparr>key = ''Name'', val = ''IMAGES [connected to remote resource]''\<rparr>]\<rparr>]"
proof -
  let ?b = "no_bindings\<lparr>images := Some \<lparr>sb_binding = ''IMAGES''\<rparr>\<rparr> :: string bindings"
  let ?r1 = "\<lparr>output_groups =
            [\<lparr>group_name = ''Images'', entries = [\<lparr>key = ''Name'', val = ''IMAGES''\<rparr>]\<rparr>],
          tailLines = [], final = \<lparr>hasConnectionStatus = False, resolved = []\<rparr>\<rparr>"
  let ?r2 = "\<lparr>output_groups =
            [\<lparr>group_name = ''Images'',
              entries = [\<lparr>key = ''Name'', val = ''IMAGES [connected to remote resource]''\<rparr>]\<rparr>],
          tailLines = [], final = \<lparr>hasConnectionStatus = False, resolved = []\<rparr>\<rparr>"
  have 1: "images ?b = Some \<lparr>sb_binding = ''IMAGES''\<rparr>" by (simp add: no_bindings_def)
  have 2: "\<not> truthy (provisioning (local_context RegistryUndefined))"
    by (simp add: local_context_def truthy_def)
  have 3: "\<not> truthy (provisioning (no_context\<lparr>imagesLocalMode := Some True\<rparr>))"
    by (simp add: no_context_def truthy_def)
  have 4: "printBindings plain_env ?b [] (local_context RegistryUndefined) = Inr ?r1"
    by (simp add: eval_defs)
  have 5: "printBindings plain_env ?b [] (no_context\<lparr>imagesLocalMode := Some True\<rparr>) = Inr ?r2"
    by (simp add: eval_defs)
  show ?thesis
    using images_suffix [OF 1 2 4] images_suffix [OF 1 3 5] 4 5
    by (simp add: local_context_def no_context_def truthy_def)
qed

section \<open>The two groups of the unsafe kind\<close>

text \<open>
  The output is some groups, the group of the unsafe bindings, the group of the
  variables, some groups, and the group of the unsafe metadata; none of the groups left
  unnamed here is called \<open>Vars\<close> or \<open>Unsafe Metadata\<close>.
\<close>

lemma output_groups_split:
  assumes "printBindings e b tcs c = Inr r"
  shows "\<exists>pre post.
     output_groups r
       = pre @ list_group Unsafe (unsafe_binding_entry (createAddSuffix (provisioning c) (local c)))
                 (unsafe_bindings_of (unsafe b))
             @ list_group Vars (var_entry e) (vars b) @ post
             @ single_group Unsafe
                 (map (unsafe_metadata_entry e (createAddSuffix (provisioning c) (local c))))
                 (unsafe_metadata_of (unsafe b)) \<and>
     filter (\<lambda>g. group_name g = ''Vars'') pre = [] \<and>
     filter (\<lambda>g. group_name g = ''Vars'') post = [] \<and>
     filter (\<lambda>g. group_name g = ''Unsafe Metadata'') pre = [] \<and>
     filter (\<lambda>g. group_name g = ''Unsafe Metadata'') post = []"
proof -
  let ?addSuffix = "createAddSuffix (provisioning c) (local c)"
  let ?post = "list_group Wasm_modules (wasm_module_entry e ?addSuffix) (wasm_modules b)
            @ list_group Dispatch_namespaces (dispatch_namespace_entry ?addSuffix)
                (dispatch_namespaces b)
            @ list_group Mtls_certificates (mtls_certificate_entry ?addSuffix) (mtls_certificates b)"
  let ?u = "list_group Unsafe (unsafe_binding_entry ?addSuffix) (unsafe_bindings_of (unsafe b))"
  let ?v = "list_group Vars (var_entry e) (vars b)"
  let ?m = "single_group Unsafe (map (unsafe_metadata_entry e ?addSuffix))
                 (unsafe_metadata_of (unsafe b))"
  have "\<exists>pre. output_groups r = pre @ ?u @ ?v @ ?post @ ?m \<and>
          filter (\<lambda>g. group_name g = ''Vars'') pre = [] \<and>
          filter (\<lambda>g. group_name g = ''Unsafe Metadata'') pre = []"
    using output_groups_printBindings [OF assms]
    apply (elim exE conjE)
    apply (frule filter_list_group_err [where n = "''Vars''"])
    apply (frule filter_list_group_err [where n = "''Unsafe Metadata''"])
    apply (simp add: Let_def filter_groups append_eq_append_conv2
        del: append_assoc add: append_assoc [symmetric])
    done
  then obtain pre where out: "output_groups r = pre @ ?u @ ?v @ ?post @ ?m"
    and pv: "filter (\<lambda>g. group_name g = ''Vars'') pre = []"
    and pu: "filter (\<lambda>g. group_name g = ''Unsafe Metadata'') pre = []"
    by blast
  have "filter (\<lambda>g. group_name g = ''Vars'') ?post = []"
    and "filter (\<lambda>g. group_name g = ''Unsafe Metadata'') ?post = []"
    by (simp_all add: filter_groups)
  with out pv pu show ?thesis by blast
qed

lemma addSuffix_default:
  "createAddSuffix p l (JsString v) None
     = v @ (if truthy p \<or> \<not> truthy l then [] else '' [connected to remote resource]'')"
  by (simp add: createAddSuffix_def normalizeValue_def truthy_def)

text \<open>
  C10, as amended. With a non-empty \<open>unsafe.bindings\<close> and a defined \<open>unsafe.metadata\<close>
  the output of a render that returns has exactly two groups named \<open>Unsafe Metadata\<close>.
  The first is built from the bindings, each entry keyed by the \<open>type\<close> of the record, and
  it comes right before the group of the variables, if there is one. The second is built
  from the metadata, each value being its \<open>JSON.stringify\<close> text, not truncated, and it is
  the last group of the output. In local development without provisioning both values are
  followed by \<open>" [connected to remote resource]"\<close>; otherwise they are the name and the
  text alone.
\<close>

theorem unsafe_groups:
  assumes "unsafe b = Some u" and "unsafe_bindings u = Some ubs" and "ubs \<noteq> []"
    and "unsafe_metadata u = Some md" and "printBindings e b tcs c = Inr r"
  shows "let sfx = (if truthy (provisioning c) \<or> \<not> truthy (local c) then []
                    else '' [connected to remote resource]'');
             from_bindings = \<lparr>group_name = ''Unsafe Metadata'',
                entries = map (\<lambda>x. \<lparr>key = ub_type x, val = ub_name x @ sfx\<rparr>) ubs\<rparr>;
             from_metadata = \<lparr>group_name = ''Unsafe Metadata'',
                entries = map (\<lambda>kv. \<lparr>key = fst kv, val = stringify e (snd kv) @ sfx\<rparr>) md\<rparr>
         in (\<exists>pre post.
               output_groups r
                 = pre @ [from_bindings] @ list_group Vars (var_entry e) (vars b) @ post
                   @ [from_metadata] \<and>
               (\<forall>g \<in> set (pre @ post).
                  group_name g \<noteq> ''Vars'' \<and> group_name g \<noteq> ''Unsafe Metadata'')) \<and>
            groups_named ''Unsafe Metadata'' (output_groups r) = [from_bindings, from_metadata] \<and>
            last (output_groups r) = from_metadata"
proof -
  let ?addSuffix = "createAddSuffix (provisioning c) (local c)"
  let ?sfx = "if truthy (provisioning c) \<or> \<not> truthy (local c) then []
              else '' [connected to remote resource]''"
  let ?g1 = "\<lparr>group_name = ''Unsafe Metadata'',
                entries = map (\<lambda>x. \<lparr>key = ub_type x, val = ub_name x @ ?sfx\<rparr>) ubs\<rparr>"
  let ?g2 = "\<lparr>group_name = ''Unsafe Metadata'',
                entries = map (\<lambda>kv. \<lparr>key = fst kv, val = stringify e (snd kv) @ ?sfx\<rparr>) md\<rparr>"
  have g1: "list_group Unsafe (unsafe_binding_entry ?addSuffix) (unsafe_bindings_of (unsafe b))
              = [?g1]"
    using assms(1-3)
    by (simp add: list_group_def unsafe_bindings_of_def unsafe_binding_entry_def addSuffix_default)
  have g2: "single_group Unsafe (map (unsafe_metadata_entry e ?addSuffix))
              (unsafe_metadata_of (unsafe b)) = [?g2]"
    using assms(1,4)
    by (simp add: single_group_def unsafe_metadata_of_def unsafe_metadata_entry_def
        addSuffix_default)
  obtain pre post where
    out: "output_groups r = pre @ [?g1] @ list_group Vars (var_entry e) (vars b) @ post @ [?g2]"
    and pv: "filter (\<lambda>g. group_name g = ''Vars'') pre = []"
            "filter (\<lambda>g. group_name g = ''Vars'') post = []"
    and pu: "filter (\<lambda>g. group_name g = ''Unsafe Metadata'') pre = []"
            "filter (\<lambda>g. group_name g = ''Unsafe Metadata'') post = []"
    using output_groups_split [OF assms(5)] unfolding g1 g2 by blast
  have names: "\<forall>g \<in> set (pre @ post).
                 group_name g \<noteq> ''Vars'' \<and> group_name g \<noteq> ''Unsafe Metadata''"
    using pv pu by (auto simp add: filter_empty_conv)
  have flt: "groups_named ''Unsafe Metadata'' (output_groups r) = [?g1, ?g2]"
    by (simp add: groups_named_def out pu filter_list_group)
  have lst: "last (output_groups r) = ?g2"
    by (simp add: out)
  have "\<exists>pre post.
               output_groups r
                 = pre @ [?g1] @ list_group Vars (var_entry e) (vars b) @ post @ [?g2] \<and>
               (\<forall>g \<in> set (pre @ post).
                  group_name g \<noteq> ''Vars'' \<and> group_name g \<noteq> ''Unsafe Metadata'')"
    using out names by blast
  then show ?thesis unfolding Let_def using flt lst by blast
qed

theorem unsafe_groups_witness:
  "printBindings plain_env unsafe_example [] no_context
   = Inr \<lparr>output_groups =
            [\<lparr>group_name = ''Unsafe Metadata'',
              entries = [\<lparr>key = ''plain_text'', val = ''my-binding''\<rparr>]\<rparr>,
             \<lparr>group_name = ''Unsafe Metadata'', entries = [\<lparr>key = ''build'', val = ''1''\<rparr>]\<rparr>],
          tailLines = [], final = \<lparr>hasConnectionStatus = False, resolved = []\<rparr>\<rparr> \<and>
   groups_named ''Unsafe Metadata''
     [\<lparr>group_name = ''Unsafe Metadata'',
       entries = [\<lparr>key = ''plain_text'', val = ''my-binding''\<rparr>]\<rparr>,
      \<lparr>group_name = ''Unsafe Metadata'', entries = [\<lparr>key = ''build'', val = ''1''\<rparr>]\<rparr>]
   = [\<lparr>group_name = ''Unsafe Metadata'',
       entries = [\<lparr>key = ''plain_text'', val = ''my-binding''\<rparr>]\<rparr>,
      \<lparr>group_name = ''Unsafe Metadata'', entries = [\<lparr>key = ''build'', val = ''1''\<rparr>]\<rparr>]"
proof -
  let ?u = "\<lparr>unsafe_bindings = Some [\<lparr>ub_name = ''my-binding'', ub_type = ''plain_text''\<rparr>],
        unsafe_metadata = Some [(''build'', ''1'')]\<rparr>"
  let ?r = "\<lparr>output_groups =
            [\<lparr>group_name = ''Unsafe Metadata'',
              entries = [\<lparr>key = ''plain_text'', val = ''my-binding''\<rparr>]\<rparr>,
             \<lparr>group_name = ''Unsafe Metadata'', entries = [\<lparr>key = ''build'', val = ''1''\<rparr>]\<rparr>],
          tailLines = [], final = \<lparr>hasConnectionStatus = False, resolved = []\<rparr>\<rparr>"
  have 1: "unsafe unsafe_example = Some ?u" by (simp add: unsafe_example_def no_bindings_def)
  have 2: "unsafe_bindings ?u = Some [\<lparr>ub_name = ''my-binding'', ub_type = ''plain_text''\<rparr>]"
    by simp
  have 3: "[\<lparr>ub_name = ''my-binding'', ub_type = ''plain_text''\<rparr>] \<noteq> []" by simp
  have 4: "unsafe_metadata ?u = Some [(''build'', ''1'')]" by simp
  have 5: "printBindings plain_env unsafe_example [] no_context = Inr ?r"
    by (simp add: eval_defs unsafe_example_def unsafe_binding_entry_def unsafe_metadata_entry_def)
  show ?thesis
    using unsafe_groups [OF 1 2 3 4 5] 5
    by (simp add: Let_def no_context_def truthy_def plain_env_def)
qed

text \<open>
  The claim as stated has the name of the record as value. In local development the value
  is the name followed by the suffix, and so is the text of a metadata value.
\<close>

theorem unsafe_values_decorated_counterexample:
  "printBindings plain_env unsafe_example [] (local_context RegistryUndefined)
   = Inr \<lparr>output_groups =
            [\<lparr>group_name = ''Unsafe Metadata'',
              entries = [\<lparr>key = ''plain_text'',
                         val = ''my-binding [connected to remote resource]''\<rparr>]\<rparr>,
             \<lparr>group_name = ''Unsafe Metadata'',
              entries = [\<lparr>key = ''build'', val = ''1 [connected to remote resource]''\<rparr>]\<rparr>],
          tailLines = [], final = \<lparr>hasConnectionStatus = False, resolved = []\<rparr>\<rparr>"
  by (simp add: eval_defs unsafe_example_def unsafe_binding_entry_def unsafe_metadata_entry_def)

section \<open>Groups without entries\<close>

text \<open>
  C6. The claim is that no group of the output is without entries. For a configuration
  whose only binding is \<open>unsafe: { metadata: {} }\<close> the output is one group, named
  \<open>Unsafe Metadata\<close>, without any entry: the metadata group is pushed whenever the
  metadata is defined, while every other kind built from an object or a list is pushed
  only when it has an entry.
\<close>

theorem empty_metadata_group:
  "printBindings plain_env
      (no_bindings\<lparr>unsafe := Some \<lparr>unsafe_bindings = None, unsafe_metadata = Some []\<rparr>\<rparr>) []
      no_context
   = Inr \<lparr>output_groups = [\<lparr>group_name = ''Unsafe Metadata'', entries = []\<rparr>],
          tailLines = [], final = \<lparr>hasConnectionStatus = False, resolved = []\<rparr>\<rparr>"
  by (simp add: eval_defs)

text \<open>
  That is the only way to an empty group: when the unsafe metadata is absent or has an
  entry, every group of the output has at least one entry.
\<close>

lemma list_group_entries: "g \<in> set (list_group k f p) \<Longrightarrow> entries g \<noteq> []"
  by (auto simp add: list_group_def split: option.splits if_splits)

lemma map_st_Nil: "fst (map_st f xs st) = [] \<longleftrightarrow> xs = []"
  by (cases xs) (simp_all add: split_beta)

lemma list_group_st_entries: "g \<in> set (fst (list_group_st k f p st)) \<Longrightarrow> entries g \<noteq> []"
  by (auto simp add: list_group_st_def split_beta map_st_Nil split: option.splits if_splits)

lemma single_group_entries:
  "g \<in> set (single_group k f p) \<Longrightarrow> \<exists>x. p = Some x \<and> entries g = f x"
  by (auto simp add: single_group_def split: option.splits)

lemma groups_nonempty_unless_empty_metadata:
  assumes "unsafe_metadata_of (unsafe b) \<noteq> Some []" and "printBindings e b tcs c = Inr r"
  shows "\<forall>g \<in> set (output_groups r). entries g \<noteq> []"
  using output_groups_printBindings [OF assms(2)] assms(1)
  apply (elim exE conjE)
  apply (frule list_group_err_groups)
  apply (auto simp add: Let_def ai_entries_def
      dest: list_group_entries list_group_st_entries dest!: single_group_entries)
  done

end
